theory Spec2Isabelle
  imports Complex_Main
begin

section \<open>Numbers, events and container geometry\<close>

text \<open>
  The program is browser JavaScript. Its numbers are modelled as reals: every value is
  finite and arithmetic is exact, so \<open>NaN\<close>, the infinities and the rounding of IEEE
  doubles are outside the model. \<open>Math.max\<close> and \<open>Math.min\<close> are \<open>max\<close> and
  \<open>min\<close>; \<open>Math.round\<close> rounds half up; the remainder operator \<open>%\<close> takes the
  sign of the dividend. A division by zero has no finite value: the properties below
  that divide hold for every value of the quotient, or have a divisor that is not 0.
\<close>

definition Math_round :: "real \<Rightarrow> real" where
  "Math_round x = of_int \<lfloor>x + 1 / 2\<rfloor>"

definition js_trunc :: "real \<Rightarrow> int" where
  "js_trunc x = (if 0 \<le> x then \<lfloor>x\<rfloor> else \<lceil>x\<rceil>)"

text \<open>
  \<open>parseInt\<close> of a number reads the text that JavaScript prints for it, up to the
  first character that is no digit. From 0.000001 up to, and not including, 10 to the power 21 the number is
  printed in decimal notation, and \<open>parseInt\<close> gives it truncated toward zero. A
  smaller or larger number is printed with an exponent (\<open>5e-7\<close>, \<open>1.5e+21\<close>), and
  \<open>parseInt\<close> gives its first digit, with the sign.
\<close>

definition parseInt :: "real \<Rightarrow> real" where
  "parseInt x =
     (if x = 0 then 0
      else if 1 / 10 ^ 6 \<le> \<bar>x\<bar> \<and> \<bar>x\<bar> < 10 ^ 21 then of_int (js_trunc x)
      else sgn x * of_int \<lfloor>\<bar>x\<bar> / 10 powr of_int \<lfloor>log 10 \<bar>x\<bar>\<rfloor>\<rfloor>)"

definition js_rem :: "real \<Rightarrow> real \<Rightarrow> real" where
  "js_rem x y = x - y * of_int (js_trunc (x / y))"

text \<open>
  The geometry of the container element at the time of a call: \<open>offsetWidth\<close>,
  \<open>offsetHeight\<close>, \<open>clientWidth\<close>, \<open>clientHeight\<close> and the rectangle that
  \<open>getBoundingClientRect()\<close> returns.
\<close>

record container =
  offsetWidth :: real
  offsetHeight :: real
  clientWidth :: real
  clientHeight :: real
  rect_left :: real
  rect_top :: real
  rect_width :: real
  rect_height :: real

text \<open>A mouse or wheel event: the fields the handlers read.\<close>

record mouse_event =
  clientX :: real
  clientY :: real
  deltaY :: real
  button :: int

section \<open>ZoomController (src/js/zoom-controller.js)\<close>

text \<open>
  The fields of the class. \<open>crosshairController\<close> is a reference to the crosshair
  controller of the page: the model keeps whether it is set.
\<close>

record zoom_state =
  scale :: real
  minScale :: real
  maxScale :: real
  scaleStep :: real
  translateX :: real
  translateY :: real
  isDragging :: bool
  lastMouseX :: real
  lastMouseY :: real
  zoomEnabled :: bool
  crosshairController :: bool

definition ZoomController_new :: zoom_state where
  "ZoomController_new =
     \<lparr>scale = 1, minScale = 1, maxScale = 5, scaleStep = 1 / 10,
      translateX = 0, translateY = 0, isDragging = False,
      lastMouseX = 0, lastMouseY = 0, zoomEnabled = False,
      crosshairController = False\<rparr>"

definition constrainTranslation :: "container \<Rightarrow> zoom_state \<Rightarrow> zoom_state" where
  "constrainTranslation c z =
     (let containerWidth = offsetWidth c;
          containerHeight = offsetHeight c;
          scaledWidth = containerWidth * scale z;
          scaledHeight = containerHeight * scale z;
          maxTranslateX = max 0 ((scaledWidth - containerWidth) / 2);
          maxTranslateY = max 0 ((scaledHeight - containerHeight) / 2)
      in z\<lparr>translateX := max (- maxTranslateX) (min maxTranslateX (translateX z)),
            translateY := max (- maxTranslateY) (min maxTranslateY (translateY z))\<rparr>)"

text \<open>
  The part of \<open>handleWheel\<close> that runs when zoom is enabled (lines 77 to 116): zoom
  by one step about the mouse position, unless the stepped scale leaves the limits.
\<close>

definition wheelZoom :: "container \<Rightarrow> mouse_event \<Rightarrow> zoom_state \<Rightarrow> zoom_state" where
  "wheelZoom c e z =
     (let mouseX = clientX e - rect_left c;
          mouseY = clientY e - rect_top c;
          zoomDirection = (if deltaY e < 0 then 1 else - 1);
          zoomAmount = scaleStep z * zoomDirection;
          newScale = scale z + zoomAmount
      in if newScale < minScale z \<or> newScale > maxScale z then z
         else
           let containerCenterX = offsetWidth c / 2;
               containerCenterY = offsetHeight c / 2;
               currentMouseX = (mouseX - containerCenterX - translateX z) / scale z;
               currentMouseY = (mouseY - containerCenterY - translateY z) / scale z
           in constrainTranslation c
                (z\<lparr>scale := newScale,
                   translateX := mouseX - containerCenterX - currentMouseX * newScale,
                   translateY := mouseY - containerCenterY - currentMouseY * newScale\<rparr>))"

definition handleWheelForCrosshair :: "container \<Rightarrow> mouse_event \<Rightarrow> zoom_state \<Rightarrow> zoom_state" where
  "handleWheelForCrosshair c e z =
     (let zoomDirection = (if deltaY e < 0 then 1 else - 1);
          zoomAmount = scaleStep z * zoomDirection;
          newScale = scale z + zoomAmount
      in if newScale < minScale z \<or> newScale > maxScale z then z
         else
           let centerX = offsetWidth c / 2;
               centerY = offsetHeight c / 2;
               containerCenterX = offsetWidth c / 2;
               containerCenterY = offsetHeight c / 2;
               currentCenterX = (centerX - containerCenterX - translateX z) / scale z;
               currentCenterY = (centerY - containerCenterY - translateY z) / scale z
           in constrainTranslation c
                (z\<lparr>scale := newScale,
                   translateX := centerX - containerCenterX - currentCenterX * newScale,
                   translateY := centerY - containerCenterY - currentCenterY * newScale\<rparr>))"

definition handleMouseDown :: "mouse_event \<Rightarrow> zoom_state \<Rightarrow> zoom_state" where
  "handleMouseDown e z =
     (if button e = 0
      then z\<lparr>isDragging := True, lastMouseX := clientX e, lastMouseY := clientY e\<rparr>
      else z)"


definition handleMouseUp :: "zoom_state \<Rightarrow> zoom_state" where
  "handleMouseUp z = (if isDragging z then z\<lparr>isDragging := False\<rparr> else z)"

definition resetZoom :: "zoom_state \<Rightarrow> zoom_state" where
  "resetZoom z = z\<lparr>scale := 1, translateX := 0, translateY := 0\<rparr>"

text \<open>
  \<open>setZoom(scale, centerX = null, centerY = null)\<close>: the two optional arguments are
  \<open>None\<close> when they are null.
\<close>

definition setZoom ::
  "container \<Rightarrow> real \<Rightarrow> real option \<Rightarrow> real option \<Rightarrow> zoom_state \<Rightarrow> zoom_state" where
  "setZoom c s centerX centerY z =
     (let s' = max (minScale z) (min (maxScale z) s)
      in case (centerX, centerY) of
           (Some mouseX, Some mouseY) \<Rightarrow>
             let containerCenterX = offsetWidth c / 2;
                 containerCenterY = offsetHeight c / 2;
                 currentMouseX = (mouseX - containerCenterX - translateX z) / scale z;
                 currentMouseY = (mouseY - containerCenterY - translateY z) / scale z
             in constrainTranslation c
                  (z\<lparr>scale := s',
                     translateX := mouseX - containerCenterX - currentMouseX * s',
                     translateY := mouseY - containerCenterY - currentMouseY * s'\<rparr>)
         | _ \<Rightarrow> z\<lparr>scale := s'\<rparr>)"

definition zoomIn ::
  "container \<Rightarrow> real option \<Rightarrow> real option \<Rightarrow> zoom_state \<Rightarrow> zoom_state" where
  "zoomIn c centerX centerY z = setZoom c (scale z + scaleStep z) centerX centerY z"

definition zoomOut ::
  "container \<Rightarrow> real option \<Rightarrow> real option \<Rightarrow> zoom_state \<Rightarrow> zoom_state" where
  "zoomOut c centerX centerY z = setZoom c (scale z - scaleStep z) centerX centerY z"

definition setZoomLimits :: "real \<Rightarrow> real \<Rightarrow> zoom_state \<Rightarrow> zoom_state" where
  "setZoomLimits mn mx z =
     (let z1 = z\<lparr>minScale := mn, maxScale := mx\<rparr>
      in if scale z1 < minScale z1 \<or> scale z1 > maxScale z1
         then z1\<lparr>scale := max (minScale z1) (min (maxScale z1) (scale z1))\<rparr>
         else z1)"

definition enableZoom :: "zoom_state \<Rightarrow> zoom_state" where
  "enableZoom z = z\<lparr>zoomEnabled := True\<rparr>"

definition disableZoom :: "zoom_state \<Rightarrow> zoom_state" where
  "disableZoom z = z\<lparr>zoomEnabled := False\<rparr>"

section \<open>CrosshairController (src/unnamed/part_002)\<close>

text \<open>
  The size controls of the three circles. The controls of circle 1 and circle 3 carry a
  margin, the control of circle 2 does not.
\<close>

record size_control =
  currentSize :: real
  minSize :: real
  maxSize :: real
  step :: real
  fineStep :: real
  borderWidth :: real

record size_control_m = size_control +
  marginFromCircle2 :: real

record circle_settings =
  circle1Percentage :: real
  circle2Percentage :: real
  circle3Percentage :: real

text \<open>
  The part of the document the controller reads back. An icon is a button with its
  \<open>style.display\<close> (whether it is \<open>'none'\<close>) and its bounding rectangle; a circle
  element keeps the width that \<open>setCircle1/2/3\<close> wrote into its style (\<open>None\<close> while
  the style has no width). An element that the page does not have is \<open>None\<close>.
\<close>

record icon =
  display_none :: bool
  icon_left :: real
  icon_right :: real
  icon_top :: real
  icon_bottom :: real

record circle_el =
  style_width :: "real option"

record crosshair_el =
  circle_1 :: "circle_el option"
  circle_2 :: "circle_el option"
  circle_3 :: "circle_el option"

record crosshair_state =
  crosshair :: "crosshair_el option"
  rotationIcon :: "icon option"
  resetIcon :: "icon option"
  toggle1Icon :: "icon option"
  toggle2Icon :: "icon option"
  toggle3Icon :: "icon option"
  zoomController :: bool
  isVisible :: bool
  circleSettings :: circle_settings
  circle2SizeControl :: size_control
  circle1SizeControl :: size_control_m
  circle3SizeControl :: size_control_m
  isMiddleMouseDown :: bool
  centerOffsetX :: real
  centerOffsetY :: real
  circle1Visible :: bool
  circle2Visible :: bool
  circle3Visible :: bool
  rotationAngle :: real
  rotationStep :: real
  fineRotationStep :: real

text \<open>
  The constructor, given the elements found in the document and whether a zoom
  controller was passed.
\<close>

definition CrosshairController_new ::
  "crosshair_el option \<Rightarrow> icon option \<Rightarrow> icon option \<Rightarrow> icon option \<Rightarrow> icon option \<Rightarrow>
   icon option \<Rightarrow> bool \<Rightarrow> crosshair_state" where
  "CrosshairController_new el rot rst t1 t2 t3 zc =
     \<lparr>crosshair = el, rotationIcon = rot, resetIcon = rst,
      toggle1Icon = t1, toggle2Icon = t2, toggle3Icon = t3,
      zoomController = zc, isVisible = False,
      circleSettings =
        \<lparr>circle1Percentage = 77 / 100, circle2Percentage = 385 / 1000,
         circle3Percentage = 1925 / 10000\<rparr>,
      circle2SizeControl =
        \<lparr>currentSize = 0, minSize = 20, maxSize = 0, step = 5, fineStep = 1,
         borderWidth = 2\<rparr>,
      circle1SizeControl =
        \<lparr>currentSize = 0, minSize = 50, maxSize = 0, step = 5, fineStep = 1,
         borderWidth = 2, marginFromCircle2 = 20\<rparr>,
      circle3SizeControl =
        \<lparr>currentSize = 0, minSize = 20, maxSize = 0, step = 5, fineStep = 1,
         borderWidth = 2, marginFromCircle2 = 15\<rparr>,
      isMiddleMouseDown = False, centerOffsetX = 0, centerOffsetY = 0,
      circle1Visible = True, circle2Visible = False, circle3Visible = False,
      rotationAngle = 45, rotationStep = 125 / 100, fineRotationStep = 1\<rparr>"

subsection \<open>Writing and reading the circle widths\<close>

definition setCircle1 :: "real \<Rightarrow> crosshair_state \<Rightarrow> crosshair_state" where
  "setCircle1 size' st =
     (case crosshair st of
        None \<Rightarrow> st
      | Some d \<Rightarrow>
          (case circle_1 d of
             None \<Rightarrow> st
           | Some el \<Rightarrow>
               st\<lparr>crosshair := Some (d\<lparr>circle_1 := Some (el\<lparr>style_width := Some size'\<rparr>)\<rparr>)\<rparr>))"

definition setCircle2 :: "real \<Rightarrow> crosshair_state \<Rightarrow> crosshair_state" where
  "setCircle2 size' st =
     (case crosshair st of
        None \<Rightarrow> st
      | Some d \<Rightarrow>
          (case circle_2 d of
             None \<Rightarrow> st
           | Some el \<Rightarrow>
               st\<lparr>crosshair := Some (d\<lparr>circle_2 := Some (el\<lparr>style_width := Some size'\<rparr>)\<rparr>)\<rparr>))"

definition setCircle3 :: "real \<Rightarrow> crosshair_state \<Rightarrow> crosshair_state" where
  "setCircle3 size' st =
     (case crosshair st of
        None \<Rightarrow> st
      | Some d \<Rightarrow>
          (case circle_3 d of
             None \<Rightarrow> st
           | Some el \<Rightarrow>
               st\<lparr>crosshair := Some (d\<lparr>circle_3 := Some (el\<lparr>style_width := Some size'\<rparr>)\<rparr>)\<rparr>))"

text \<open>
  \<open>parseInt(el.style.width) || fallback\<close>: the width was written as \<open>`${size}px`\<close>,
  so \<open>parseInt\<close> reads the printed size; no width, or a width that reads as 0, gives
  the fallback.
\<close>

definition width_or :: "circle_el \<Rightarrow> real \<Rightarrow> real" where
  "width_or el fallback =
     (case style_width el of
        None \<Rightarrow> fallback
      | Some w \<Rightarrow> if parseInt w = 0 then fallback else parseInt w)"

definition getCircle1Radius :: "crosshair_state \<Rightarrow> real" where
  "getCircle1Radius st =
     (case crosshair st of
        None \<Rightarrow> 70
      | Some d \<Rightarrow> (case circle_1 d of None \<Rightarrow> 70 | Some el \<Rightarrow> width_or el 140 / 2))"

definition getCircle2Radius :: "crosshair_state \<Rightarrow> real" where
  "getCircle2Radius st =
     (case crosshair st of
        None \<Rightarrow> 35
      | Some d \<Rightarrow> (case circle_2 d of None \<Rightarrow> 35 | Some el \<Rightarrow> width_or el 70 / 2))"

definition getCircle3Radius :: "crosshair_state \<Rightarrow> real" where
  "getCircle3Radius st =
     (case crosshair st of
        None \<Rightarrow> 35 / 2
      | Some d \<Rightarrow> (case circle_3 d of None \<Rightarrow> 35 / 2 | Some el \<Rightarrow> width_or el 35 / 2))"

subsection \<open>Circle sizes and their limits\<close>

definition updateCircleSizes :: "container \<Rightarrow> crosshair_state \<Rightarrow> crosshair_state" where
  "updateCircleSizes c st =
     (let containerHeight = clientHeight c;
          containerWidth = clientWidth c
      in if containerHeight > 0
         then
           let circle1Size = Math_round (containerHeight * circle1Percentage (circleSettings st));
               circle2Size = Math_round (containerHeight * circle2Percentage (circleSettings st));
               circle3Size = Math_round (containerHeight * circle3Percentage (circleSettings st));
               st1 = (if currentSize (circle1SizeControl st) = 0
                      then setCircle1 circle1Size
                             (st\<lparr>circle1SizeControl :=
                                   (circle1SizeControl st)\<lparr>currentSize := circle1Size\<rparr>\<rparr>)
                      else st);
               st2 = (if currentSize (circle2SizeControl st1) = 0
                      then setCircle2 circle2Size
                             (st1\<lparr>circle2SizeControl :=
                                    (circle2SizeControl st1)\<lparr>currentSize := circle2Size\<rparr>\<rparr>)
                      else st1);
               st3 = (if currentSize (circle3SizeControl st2) = 0
                      then setCircle3 circle3Size
                             (st2\<lparr>circle3SizeControl :=
                                    (circle3SizeControl st2)\<lparr>currentSize := circle3Size\<rparr>\<rparr>)
                      else st2);
               st4 = st3\<lparr>circle1SizeControl :=
                           (circle1SizeControl st3)
                             \<lparr>minSize := max 50 (currentSize (circle2SizeControl st3)
                                                 + marginFromCircle2 (circle1SizeControl st3)),
                              maxSize := min containerWidth containerHeight * (98 / 100)\<rparr>\<rparr>;
               st5 = st4\<lparr>circle2SizeControl :=
                           (circle2SizeControl st4)
                             \<lparr>minSize := max (borderWidth (circle2SizeControl st4) * 10)
                                            (currentSize (circle3SizeControl st4)
                                             + marginFromCircle2 (circle3SizeControl st4)),
                              maxSize := currentSize (circle1SizeControl st4)
                                         - marginFromCircle2 (circle1SizeControl st4)\<rparr>\<rparr>
           in st5\<lparr>circle3SizeControl :=
                      (circle3SizeControl st5)
                        \<lparr>minSize := borderWidth (circle3SizeControl st5) * 10,
                         maxSize := currentSize (circle2SizeControl st5)
                                    - marginFromCircle2 (circle3SizeControl st5)\<rparr>\<rparr>
         else st)"

text \<open>
  The largest diameter that keeps a circle about the (dragged) centre inside the
  container with the 5 pixel safety margin; the three size handlers compute it alike.
\<close>

definition maxDiameter :: "container \<Rightarrow> crosshair_state \<Rightarrow> real" where
  "maxDiameter c st =
     (let containerWidth = clientWidth c;
          containerHeight = clientHeight c;
          currentCenterX = containerWidth / 2 + centerOffsetX st;
          currentCenterY = containerHeight / 2 + centerOffsetY st;
          safetyMargin = 5;
          maxRadiusX = min (currentCenterX - safetyMargin)
                           (containerWidth - currentCenterX - safetyMargin);
          maxRadiusY = min (currentCenterY - safetyMargin)
                           (containerHeight - currentCenterY - safetyMargin);
          maxRadius = max 0 (min maxRadiusX maxRadiusY)
      in maxRadius * 2)"

definition handleCircle2SizeChange :: "container \<Rightarrow> real \<Rightarrow> crosshair_state \<Rightarrow> crosshair_state" where
  "handleCircle2SizeChange c dY st =
     (let direction = (if dY < 0 then 1 else - 1);
          stepSize = (if isMiddleMouseDown st then fineStep (circle2SizeControl st)
                      else step (circle2SizeControl st));
          sizeChange = stepSize * direction;
          newSize = currentSize (circle2SizeControl st) + sizeChange;
          boundaryConstrainedMaxSize = min (maxSize (circle2SizeControl st)) (maxDiameter c st);
          clampedSize = max (minSize (circle2SizeControl st))
                            (min boundaryConstrainedMaxSize newSize)
      in if clampedSize \<noteq> currentSize (circle2SizeControl st)
         then setCircle2 clampedSize
                (st\<lparr>circle2SizeControl :=
                      (circle2SizeControl st)\<lparr>currentSize := clampedSize\<rparr>\<rparr>)
         else st)"

definition handleCircle1SizeChange :: "container \<Rightarrow> real \<Rightarrow> crosshair_state \<Rightarrow> crosshair_state" where
  "handleCircle1SizeChange c dY st =
     (let direction = (if dY > 0 then - 1 else 1);
          stepSize = (if isMiddleMouseDown st then fineStep (circle1SizeControl st)
                      else step (circle1SizeControl st));
          newSize = currentSize (circle1SizeControl st) + direction * stepSize;
          boundaryConstrainedMaxSize = min (maxSize (circle1SizeControl st)) (maxDiameter c st);
          clampedSize = max (minSize (circle1SizeControl st))
                            (min boundaryConstrainedMaxSize newSize)
      in if clampedSize \<noteq> currentSize (circle1SizeControl st)
         then updateCircleSizes c
                (setCircle1 clampedSize
                   (st\<lparr>circle1SizeControl :=
                         (circle1SizeControl st)\<lparr>currentSize := clampedSize\<rparr>\<rparr>))
         else st)"

definition handleCircle3SizeChange :: "container \<Rightarrow> real \<Rightarrow> crosshair_state \<Rightarrow> crosshair_state" where
  "handleCircle3SizeChange c dY st =
     (let direction = (if dY < 0 then 1 else - 1);
          stepSize = (if isMiddleMouseDown st then fineStep (circle3SizeControl st)
                      else step (circle3SizeControl st));
          sizeChange = stepSize * direction;
          newSize = currentSize (circle3SizeControl st) + sizeChange;
          boundaryConstrainedMaxSize = min (maxSize (circle3SizeControl st)) (maxDiameter c st);
          clampedSize = max (minSize (circle3SizeControl st))
                            (min boundaryConstrainedMaxSize newSize)
      in if clampedSize \<noteq> currentSize (circle3SizeControl st)
         then updateCircleSizes c
                (setCircle3 clampedSize
                   (st\<lparr>circle3SizeControl :=
                         (circle3SizeControl st)\<lparr>currentSize := clampedSize\<rparr>\<rparr>))
         else st)"

definition resetCenterPosition :: "crosshair_state \<Rightarrow> crosshair_state" where
  "resetCenterPosition st = st\<lparr>centerOffsetX := 0, centerOffsetY := 0\<rparr>"

definition resetCirclesToDefault :: "container \<Rightarrow> crosshair_state \<Rightarrow> crosshair_state" where
  "resetCirclesToDefault c st =
     (let containerHeight = clientHeight c
      in if containerHeight > 0
         then
           let circle1Size = Math_round (containerHeight * circle1Percentage (circleSettings st));
               circle2Size = Math_round (containerHeight * circle2Percentage (circleSettings st));
               circle3Size = Math_round (containerHeight * circle3Percentage (circleSettings st));
               st1 = st\<lparr>circle1SizeControl :=
                          (circle1SizeControl st)\<lparr>currentSize := circle1Size\<rparr>,
                        circle2SizeControl :=
                          (circle2SizeControl st)\<lparr>currentSize := circle2Size\<rparr>,
                        circle3SizeControl :=
                          (circle3SizeControl st)\<lparr>currentSize := circle3Size\<rparr>,
                        circle1Visible := True, circle2Visible := False,
                        circle3Visible := False\<rparr>;
               st2 = setCircle3 circle3Size (setCircle2 circle2Size (setCircle1 circle1Size st1));
               st3 = updateCircleSizes c st2
           in resetCenterPosition (st3\<lparr>rotationAngle := 45\<rparr>)
         else st)"

subsection \<open>Rotation\<close>

definition handleRotation :: "real \<Rightarrow> crosshair_state \<Rightarrow> crosshair_state" where
  "handleRotation dY st =
     (let direction = (if dY > 0 then 1 else - 1);
          stepSize = (if isMiddleMouseDown st then fineRotationStep st else rotationStep st);
          angle = rotationAngle st + direction * stepSize
      in st\<lparr>rotationAngle := js_rem (js_rem angle 360 + 360) 360\<rparr>)"

subsection \<open>Wheel events\<close>

text \<open>
  The two controllers hold references to each other, and a wheel event passes from one
  to the other; the handlers that cross over work on the pair of both states.
\<close>

record app =
  zoom :: zoom_state
  cross :: crosshair_state

definition isMouseOverIcon :: "icon option \<Rightarrow> mouse_event \<Rightarrow> bool" where
  "isMouseOverIcon ic e =
     (case ic of
        None \<Rightarrow> False
      | Some i \<Rightarrow>
          if display_none i then False
          else clientX e \<ge> icon_left i \<and> clientX e \<le> icon_right i \<and>
               clientY e \<ge> icon_top i \<and> clientY e \<le> icon_bottom i)"

definition isMouseOverRotationIcon :: "mouse_event \<Rightarrow> crosshair_state \<Rightarrow> bool" where
  "isMouseOverRotationIcon e st = isMouseOverIcon (rotationIcon st) e"

definition isMouseOverResetIcon :: "mouse_event \<Rightarrow> crosshair_state \<Rightarrow> bool" where
  "isMouseOverResetIcon e st = isMouseOverIcon (resetIcon st) e"

definition isMouseOverToggle1Icon :: "mouse_event \<Rightarrow> crosshair_state \<Rightarrow> bool" where
  "isMouseOverToggle1Icon e st = isMouseOverIcon (toggle1Icon st) e"

definition isMouseOverToggle2Icon :: "mouse_event \<Rightarrow> crosshair_state \<Rightarrow> bool" where
  "isMouseOverToggle2Icon e st = isMouseOverIcon (toggle2Icon st) e"

definition isMouseOverToggle3Icon :: "mouse_event \<Rightarrow> crosshair_state \<Rightarrow> bool" where
  "isMouseOverToggle3Icon e st = isMouseOverIcon (toggle3Icon st) e"

definition isMouseOverAnyIcon :: "mouse_event \<Rightarrow> crosshair_state \<Rightarrow> bool" where
  "isMouseOverAnyIcon e st =
     (isMouseOverRotationIcon e st \<or> isMouseOverResetIcon e st \<or>
      isMouseOverToggle1Icon e st \<or> isMouseOverToggle2Icon e st \<or>
      isMouseOverToggle3Icon e st)"

definition handleCircle1Resize :: "container \<Rightarrow> real \<Rightarrow> crosshair_state \<Rightarrow> crosshair_state" where
  "handleCircle1Resize c dY st = handleCircle1SizeChange c dY st"

definition handleCircle2Resize :: "container \<Rightarrow> real \<Rightarrow> crosshair_state \<Rightarrow> crosshair_state" where
  "handleCircle2Resize c dY st = handleCircle2SizeChange c dY st"

definition handleCircle3Resize :: "container \<Rightarrow> real \<Rightarrow> crosshair_state \<Rightarrow> crosshair_state" where
  "handleCircle3Resize c dY st = handleCircle3SizeChange c dY st"

definition handleZoomEvent :: "container \<Rightarrow> mouse_event \<Rightarrow> app \<Rightarrow> app" where
  "handleZoomEvent c e a =
     (if zoomController (cross a) then a\<lparr>zoom := handleWheelForCrosshair c e (zoom a)\<rparr>
      else a)"

text \<open>
  The distance of the pointer from the crosshair centre, the container centre moved by
  the drag offset.
\<close>

definition pointerDistance :: "container \<Rightarrow> mouse_event \<Rightarrow> crosshair_state \<Rightarrow> real" where
  "pointerDistance c e st =
     (let mouseX = clientX e - rect_left c;
          mouseY = clientY e - rect_top c;
          centerX = rect_width c / 2 + centerOffsetX st;
          centerY = rect_height c / 2 + centerOffsetY st
      in sqrt ((mouseX - centerX)\<^sup>2 + (mouseY - centerY)\<^sup>2))"

text \<open>
  \<open>handleWheelEvent\<close> returns, beside the new state, which handler it called.
\<close>

datatype wheel_action =
  NoAction | Rotation | Circle1Resize | Circle2Resize | Circle3Resize | ZoomDelegated

definition handleWheelEvent :: "container \<Rightarrow> mouse_event \<Rightarrow> app \<Rightarrow> wheel_action \<times> app" where
  "handleWheelEvent c e a =
     (let st = cross a
      in if \<not> isVisible st then (NoAction, a)
         else if isMouseOverRotationIcon e st
           then (Rotation, a\<lparr>cross := handleRotation (deltaY e) st\<rparr>)
         else if isMouseOverToggle1Icon e st \<and> circle1Visible st
           then (Circle1Resize, a\<lparr>cross := handleCircle1Resize c (deltaY e) st\<rparr>)
         else if isMouseOverToggle2Icon e st \<and> circle2Visible st
           then (Circle2Resize, a\<lparr>cross := handleCircle2Resize c (deltaY e) st\<rparr>)
         else if isMouseOverToggle3Icon e st \<and> circle3Visible st
           then (Circle3Resize, a\<lparr>cross := handleCircle3Resize c (deltaY e) st\<rparr>)
         else if isMouseOverToggle1Icon e st \<or> isMouseOverToggle2Icon e st \<or>
                 isMouseOverToggle3Icon e st
           then (NoAction, a)
         else if isMouseOverResetIcon e st then (NoAction, a)
         else
           let distance = pointerDistance c e st;
               circle1Radius = getCircle1Radius st;
               circle2Radius = getCircle2Radius st;
               circle3Radius = getCircle3Radius st
           in if distance \<le> circle3Radius \<and> circle3Visible st
                then (Circle3Resize, a\<lparr>cross := handleCircle3SizeChange c (deltaY e) st\<rparr>)
              else if distance \<le> circle2Radius \<and> circle2Visible st
                then (Circle2Resize, a\<lparr>cross := handleCircle2SizeChange c (deltaY e) st\<rparr>)
              else if distance \<le> circle1Radius \<and> circle1Visible st
                then (Circle1Resize, a\<lparr>cross := handleCircle1SizeChange c (deltaY e) st\<rparr>)
              else (ZoomDelegated, handleZoomEvent c e a))"

text \<open>
  \<open>ZoomController.handleWheel\<close>: with zoom disabled the event goes to the crosshair
  controller, when one is set; with zoom enabled the controller zooms about the mouse.
\<close>

definition handleWheel :: "container \<Rightarrow> mouse_event \<Rightarrow> app \<Rightarrow> app" where
  "handleWheel c e a =
     (if \<not> zoomEnabled (zoom a)
      then (if crosshairController (zoom a) then snd (handleWheelEvent c e a) else a)
      else a\<lparr>zoom := wheelZoom c e (zoom a)\<rparr>)"

subsection \<open>Sequences of zoom operations\<close>

datatype zoom_op =
  HandleWheel container mouse_event
| HandleWheelForCrosshair container mouse_event
| SetZoom container real "real option" "real option"
| ZoomIn container "real option" "real option"
| ZoomOut container "real option" "real option"
| ResetZoom

fun zoom_op_step :: "app \<Rightarrow> zoom_op \<Rightarrow> app" where
  "zoom_op_step a (HandleWheel c e) = handleWheel c e a"
| "zoom_op_step a (HandleWheelForCrosshair c e) = a\<lparr>zoom := handleWheelForCrosshair c e (zoom a)\<rparr>"
| "zoom_op_step a (SetZoom c s cx cy) = a\<lparr>zoom := setZoom c s cx cy (zoom a)\<rparr>"
| "zoom_op_step a (ZoomIn c cx cy) = a\<lparr>zoom := zoomIn c cx cy (zoom a)\<rparr>"
| "zoom_op_step a (ZoomOut c cx cy) = a\<lparr>zoom := zoomOut c cx cy (zoom a)\<rparr>"
| "zoom_op_step a ResetZoom = a\<lparr>zoom := resetZoom (zoom a)\<rparr>"

definition run_zoom_ops :: "zoom_op list \<Rightarrow> app \<Rightarrow> app" where
  "run_zoom_ops ops a = foldl zoom_op_step a ops"

subsection \<open>Sequences of circle operations\<close>

datatype circle_op =
  Circle1SizeChange container real
| Circle2SizeChange container real
| Circle3SizeChange container real
| UpdateCircleSizes container
| ResetCirclesToDefault container

fun circle_op_step :: "crosshair_state \<Rightarrow> circle_op \<Rightarrow> crosshair_state" where
  "circle_op_step st (Circle1SizeChange c dY) = handleCircle1SizeChange c dY st"
| "circle_op_step st (Circle2SizeChange c dY) = handleCircle2SizeChange c dY st"
| "circle_op_step st (Circle3SizeChange c dY) = handleCircle3SizeChange c dY st"
| "circle_op_step st (UpdateCircleSizes c) = updateCircleSizes c st"
| "circle_op_step st (ResetCirclesToDefault c) = resetCirclesToDefault c st"

definition run_circle_ops :: "circle_op list \<Rightarrow> crosshair_state \<Rightarrow> crosshair_state" where
  "run_circle_ops ops st = foldl circle_op_step st ops"

section \<open>WebcamManager (src/js/webcam-manager.js)\<close>

text \<open>
  A thrown value is an error object with its \<open>name\<close> and \<open>message\<close>. A promise
  that rejects, like a function that throws, yields \<open>Inl\<close> of the error.
\<close>

record js_error =
  name :: string
  message :: string

definition Error :: "string \<Rightarrow> js_error" where
  "Error msg = \<lparr>name = ''Error'', message = msg\<rparr>"

definition TypeError :: "string \<Rightarrow> js_error" where
  "TypeError msg = \<lparr>name = ''TypeError'', message = msg\<rparr>"

record device =
  deviceId :: string
  label :: string
  kind :: string

text \<open>
  Media stream tracks are shared objects: the manager's stream and the video element
  hold the same tracks. A stream is the list of its tracks' addresses, and the store
  gives each track its \<open>readyState\<close>.
\<close>

datatype track_state = Live | Ended

type_synonym media_stream = "nat list"

record video_el =
  srcObject :: "media_stream option"

record webcam_state =
  stream :: "media_stream option"
  video :: "video_el option"
  isActive :: bool
  availableCameras :: "device list"
  currentCameraId :: "string option"

record webcam_world =
  manager :: webcam_state
  tracks :: "nat \<Rightarrow> track_state"

text \<open>
  What the browser answers: \<open>navigator.mediaDevices\<close> (\<open>None\<close> when the browser
  has none), its \<open>getUserMedia\<close> (\<open>None\<close> when the function is missing) and the
  outcome of \<open>enumerateDevices()\<close>.
\<close>

record media_devices =
  getUserMedia :: "(js_error + media_stream) option"
  enumerateDevices :: "js_error + device list"

definition WebcamManager_new :: "video_el option \<Rightarrow> webcam_state" where
  "WebcamManager_new v =
     \<lparr>stream = None, video = v, isActive = False, availableCameras = [],
      currentCameraId = None\<rparr>"

definition stop_track :: "(nat \<Rightarrow> track_state) \<Rightarrow> nat \<Rightarrow> (nat \<Rightarrow> track_state)" where
  "stop_track h t = h(t := Ended)"

definition stopTracks :: "media_stream \<Rightarrow> (nat \<Rightarrow> track_state) \<Rightarrow> (nat \<Rightarrow> track_state)" where
  "stopTracks s h = foldl stop_track h s"

definition loadCamerasFallback ::
  "media_devices option \<Rightarrow> js_error \<Rightarrow> webcam_world \<Rightarrow> webcam_world \<times> (js_error + device list)" where
  "loadCamerasFallback nav originalError w =
     (let enumerated =
            (case nav of
               None \<Rightarrow> Inl (TypeError ''navigator.mediaDevices is undefined'')
             | Some md \<Rightarrow> enumerateDevices md);
          fallback = [\<lparr>deviceId = ''default'',
                       label = ''Default Camera (Permission Required)'',
                       kind = ''videoinput''\<rparr>]
      in case enumerated of
           Inr devices \<Rightarrow>
             let videoDevices = filter (\<lambda>d. kind d = ''videoinput'') devices
             in if length videoDevices > 0
                then (w\<lparr>manager := (manager w)\<lparr>availableCameras := videoDevices\<rparr>\<rparr>,
                      Inr videoDevices)
                else (w\<lparr>manager := (manager w)\<lparr>availableCameras := fallback\<rparr>\<rparr>,
                      Inr fallback)
         | Inl fallbackError \<Rightarrow>
             (w\<lparr>manager := (manager w)\<lparr>availableCameras := fallback\<rparr>\<rparr>, Inr fallback))"

text \<open>
  The methods the class defines, by name, and \<open>this[m](error)\<close> for a method that
  takes an error and loads cameras. A name the class does not define is
  \<open>undefined\<close>, and calling it throws a \<open>TypeError\<close>.
\<close>

definition WebcamManager_methods :: "string list" where
  "WebcamManager_methods =
     [''constructor'', ''initialize'', ''loadAvailableCameras'', ''loadCamerasFallback'',
      ''setupVideoElement'', ''startWebcam'', ''stopWebcam'',
      ''updateConstraintsForQuality'', ''onVideoLoaded'', ''handleError'',
      ''getErrorMessage'', ''getVideoDimensions'', ''getCameras'', ''getCurrentCamera'',
      ''getIsActive'']"

definition camera_loader ::
  "string \<Rightarrow>
   (media_devices option \<Rightarrow> js_error \<Rightarrow> webcam_world \<Rightarrow> webcam_world \<times> (js_error + device list))
     option" where
  "camera_loader m =
     (if m \<in> set WebcamManager_methods \<and> m = ''loadCamerasFallback''
      then Some loadCamerasFallback else None)"

definition call_this ::
  "string \<Rightarrow> media_devices option \<Rightarrow> js_error \<Rightarrow> webcam_world \<Rightarrow>
   webcam_world \<times> (js_error + device list)" where
  "call_this m nav err w =
     (case camera_loader m of
        Some f \<Rightarrow> f nav err w
      | None \<Rightarrow> (w, Inl (TypeError (''this.'' @ m @ '' is not a function''))))"

text \<open>
  The \<open>try\<close> block of \<open>loadAvailableCameras\<close> (lines 39 to 72): the world it
  leaves, and the cameras it returns or the error it throws.
\<close>

definition loadAvailableCameras_try ::
  "media_devices option \<Rightarrow> webcam_world \<Rightarrow> webcam_world \<times> (js_error + device list)" where
  "loadAvailableCameras_try nav w =
     (case nav of
        None \<Rightarrow> (w, Inl (Error ''getUserMedia not supported in this browser''))
      | Some md \<Rightarrow>
          (case getUserMedia md of
             None \<Rightarrow> (w, Inl (Error ''getUserMedia not supported in this browser''))
           | Some (Inl err) \<Rightarrow> (w, Inl err)
           | Some (Inr tempStream) \<Rightarrow>
               let w1 = w\<lparr>tracks := stopTracks tempStream (tracks w)\<rparr>
               in (case enumerateDevices md of
                     Inl err \<Rightarrow> (w1, Inl err)
                   | Inr devices \<Rightarrow>
                       let cams = filter (\<lambda>d. kind d = ''videoinput'') devices;
                           cams' = (if length cams = 0
                                    then [\<lparr>deviceId = ''default'', label = ''Default Camera'',
                                           kind = ''videoinput''\<rparr>]
                                    else cams)
                       in (w1\<lparr>manager := (manager w1)\<lparr>availableCameras := cams'\<rparr>\<rparr>,
                           Inr cams'))))"

definition loadAvailableCameras ::
  "media_devices option \<Rightarrow> webcam_world \<Rightarrow> webcam_world \<times> (js_error + device list)" where
  "loadAvailableCameras nav w =
     (case loadAvailableCameras_try nav w of
        (w1, Inr cams) \<Rightarrow> (w1, Inr cams)
      | (w1, Inl err) \<Rightarrow> call_this ''loadCamerasWithFallback'' nav err w1)"

definition stopWebcam :: "webcam_world \<Rightarrow> webcam_world \<times> (js_error + bool)" where
  "stopWebcam w =
     (let w1 = (case stream (manager w) of
                  Some s \<Rightarrow> w\<lparr>tracks := stopTracks s (tracks w),
                              manager := (manager w)\<lparr>stream := None\<rparr>\<rparr>
                | None \<Rightarrow> w)
      in case video (manager w1) of
           None \<Rightarrow> (w1, Inl (TypeError ''Cannot set properties of null (setting srcObject)''))
         | Some v \<Rightarrow>
             (w1\<lparr>manager := (manager w1)\<lparr>video := Some (v\<lparr>srcObject := None\<rparr>),
                                          isActive := False\<rparr>\<rparr>,
              Inr True))"

definition getErrorMessage :: "js_error \<Rightarrow> string" where
  "getErrorMessage error =
     (if name error = ''NotFoundError'' \<or> name error = ''DevicesNotFoundError''
      then ''No camera found. Please connect a camera and try again.''
      else if name error = ''NotAllowedError'' \<or> name error = ''PermissionDeniedError''
      then ''Camera access denied. Please allow camera permission and refresh the page.''
      else if name error = ''NotSupportedError''
      then ''Camera not supported by this browser.''
      else if name error = ''NotReadableError'' \<or> name error = ''TrackStartError''
      then ''Camera is already in use by another application.''
      else ''Unknown camera error occurred.'')"

section \<open>ExposureController (src/unnamed/part_003)\<close>

text \<open>
  The settings object with the fields the constructor gives it. An object passed to
  \<open>applySettings\<close> may have any of these fields: a field it lacks is \<open>None\<close>.
\<close>

record exposure_settings =
  exposure :: real
  brightness :: real
  contrast :: real
  saturation :: real
  focus :: real
  autoExposure :: bool

record settings_object =
  exposure_of :: "real option"
  brightness_of :: "real option"
  contrast_of :: "real option"
  saturation_of :: "real option"
  focus_of :: "real option"
  autoExposure_of :: "bool option"

record exposure_state =
  settings :: exposure_settings
  autoAdjustmentInterval :: bool

definition ExposureController_new :: exposure_state where
  "ExposureController_new =
     \<lparr>settings = \<lparr>exposure = 0, brightness = 0, contrast = 100, saturation = 100,
                   focus = 50, autoExposure = False\<rparr>,
      autoAdjustmentInterval = False\<rparr>"

definition stopAutoAdjustmentMonitoring :: "exposure_state \<Rightarrow> exposure_state" where
  "stopAutoAdjustmentMonitoring st =
     (if autoAdjustmentInterval st then st\<lparr>autoAdjustmentInterval := False\<rparr> else st)"

definition startAutoAdjustmentMonitoring :: "exposure_state \<Rightarrow> exposure_state" where
  "startAutoAdjustmentMonitoring st =
     (stopAutoAdjustmentMonitoring st)\<lparr>autoAdjustmentInterval := True\<rparr>"

definition disableAutoExposureDueToManualChange :: "exposure_state \<Rightarrow> exposure_state" where
  "disableAutoExposureDueToManualChange st =
     stopAutoAdjustmentMonitoring (st\<lparr>settings := (settings st)\<lparr>autoExposure := False\<rparr>\<rparr>)"

text \<open>
  The setters take the number that \<open>parseFloat(value)\<close> reads; \<open>setBrightness\<close>,
  \<open>setContrast\<close>, \<open>setSaturation\<close> and \<open>setFocus\<close> read it with \<open>parseInt\<close>.
  Each operation below is the change of the controller's fields that a call makes.
  After that change the operations call \<open>updateVideoFilters()\<close>, which is modelled
  further down: it throws when the controller holds no video element.
\<close>

definition setExposure :: "real \<Rightarrow> exposure_state \<Rightarrow> exposure_state" where
  "setExposure v st =
     (let st1 = st\<lparr>settings := (settings st)\<lparr>exposure := max (- 3) (min 3 v)\<rparr>\<rparr>
      in if autoExposure (settings st1) then disableAutoExposureDueToManualChange st1 else st1)"

definition setBrightness :: "real \<Rightarrow> exposure_state \<Rightarrow> exposure_state" where
  "setBrightness v st =
     (let st1 = st\<lparr>settings := (settings st)\<lparr>brightness := max (- 100) (min 100 (parseInt v))\<rparr>\<rparr>
      in if autoExposure (settings st1) then disableAutoExposureDueToManualChange st1 else st1)"

definition setContrast :: "real \<Rightarrow> exposure_state \<Rightarrow> exposure_state" where
  "setContrast v st =
     (let st1 = st\<lparr>settings := (settings st)\<lparr>contrast := max 0 (min 200 (parseInt v))\<rparr>\<rparr>
      in if autoExposure (settings st1) then disableAutoExposureDueToManualChange st1 else st1)"

definition setSaturation :: "real \<Rightarrow> exposure_state \<Rightarrow> exposure_state" where
  "setSaturation v st =
     st\<lparr>settings := (settings st)\<lparr>saturation := max 0 (min 200 (parseInt v))\<rparr>\<rparr>"

definition setFocus :: "real \<Rightarrow> exposure_state \<Rightarrow> exposure_state" where
  "setFocus v st =
     st\<lparr>settings := (settings st)\<lparr>focus := max 0 (min 100 (parseInt v))\<rparr>\<rparr>"

definition resetExposure :: "exposure_state \<Rightarrow> exposure_state" where
  "resetExposure st =
     stopAutoAdjustmentMonitoring
       (st\<lparr>settings := (settings st)\<lparr>exposure := 0, brightness := 0, contrast := 100,
                                      saturation := 100, focus := 50,
                                      autoExposure := False\<rparr>\<rparr>)"

definition performSoftwareAutoAdjustment :: "exposure_state \<Rightarrow> exposure_state" where
  "performSoftwareAutoAdjustment st =
     startAutoAdjustmentMonitoring
       (st\<lparr>settings := (settings st)\<lparr>exposure := 8 / 10, brightness := 15,
                                      contrast := 125, saturation := 90\<rparr>\<rparr>)"

definition setAutoExposure :: "bool \<Rightarrow> exposure_state \<Rightarrow> exposure_state" where
  "setAutoExposure en st =
     (let st1 = st\<lparr>settings := (settings st)\<lparr>autoExposure := en\<rparr>\<rparr>
      in if en then performSoftwareAutoAdjustment st1 else stopAutoAdjustmentMonitoring st1)"

definition intelligentExposureAdjustment ::
  "real \<Rightarrow> real \<Rightarrow> real \<Rightarrow> exposure_state \<Rightarrow> exposure_state" where
  "intelligentExposureAdjustment avgBrightness darkRatio brightRatio st =
     (let s = settings st;
          s1 = (if avgBrightness < 80 \<and> darkRatio > 6 / 10
                then s\<lparr>exposure := min (25 / 10) (exposure s + 2 / 10),
                       brightness := min 80 (brightness s + 10)\<rparr>
                else if avgBrightness > 180 \<and> brightRatio > 4 / 10
                then s\<lparr>exposure := max (- (15 / 10)) (exposure s - 2 / 10),
                       brightness := max (- 40) (brightness s - 10)\<rparr>
                else s);
          s2 = (if darkRatio > 7 / 10 then s1\<lparr>contrast := min 150 (contrast s1 + 5)\<rparr>
                else if brightRatio > 5 / 10 then s1\<lparr>contrast := max 100 (contrast s1 - 5)\<rparr>
                else s1)
      in st\<lparr>settings := s2\<rparr>)"

definition increaseExposure :: "real \<Rightarrow> exposure_state \<Rightarrow> exposure_state" where
  "increaseExposure stp st = setExposure (exposure (settings st) + stp) st"

definition decreaseExposure :: "real \<Rightarrow> exposure_state \<Rightarrow> exposure_state" where
  "decreaseExposure stp st = setExposure (exposure (settings st) - stp) st"

definition increaseBrightness :: "real \<Rightarrow> exposure_state \<Rightarrow> exposure_state" where
  "increaseBrightness stp st = setBrightness (brightness (settings st) + stp) st"

definition decreaseBrightness :: "real \<Rightarrow> exposure_state \<Rightarrow> exposure_state" where
  "decreaseBrightness stp st = setBrightness (brightness (settings st) - stp) st"

text \<open>
  \<open>{ ...this.settings, ...settings }\<close>: a field of the argument replaces the stored
  one. \<open>applySettings\<close> assigns the merged object to \<open>this.settings\<close> (line 527),
  unchecked; the calls that follow the assignment (lines 528 and 529) are modelled
  after it.
\<close>

definition spread :: "exposure_settings \<Rightarrow> settings_object \<Rightarrow> exposure_settings" where
  "spread s obj =
     \<lparr>exposure = (case exposure_of obj of Some v \<Rightarrow> v | None \<Rightarrow> exposure s),
      brightness = (case brightness_of obj of Some v \<Rightarrow> v | None \<Rightarrow> brightness s),
      contrast = (case contrast_of obj of Some v \<Rightarrow> v | None \<Rightarrow> contrast s),
      saturation = (case saturation_of obj of Some v \<Rightarrow> v | None \<Rightarrow> saturation s),
      focus = (case focus_of obj of Some v \<Rightarrow> v | None \<Rightarrow> focus s),
      autoExposure = (case autoExposure_of obj of Some v \<Rightarrow> v | None \<Rightarrow> autoExposure s)\<rparr>"

definition applySettings :: "settings_object \<Rightarrow> exposure_state \<Rightarrow> exposure_state" where
  "applySettings obj st = st\<lparr>settings := spread (settings st) obj\<rparr>"

text \<open>
  \<open>updateVideoFilters()\<close> writes \<open>this.video.style.filter\<close> (line 94) with no check
  of \<open>this.video\<close>: it throws a \<open>TypeError\<close> when the controller was constructed
  without a video element, and returns otherwise. Its argument is whether the controller
  holds a video element. \<open>dispatchExposureEvent()\<close>, which follows it, formats the
  settings, numbers in this model, and dispatches only if there is a video element
  (line 578): it does not throw.
\<close>

definition updateVideoFilters :: "bool \<Rightarrow> js_error + unit" where
  "updateVideoFilters hasVideo =
     (if hasVideo then Inr ()
      else Inl (TypeError ''Cannot read properties of null (reading style)''))"

subsection \<open>Local storage\<close>

text \<open>
  Web storage keeps strings. The model keeps a stored string by what \<open>JSON.parse\<close>
  makes of it: the empty string, a text that is no JSON, or a JSON text, given by the
  settings fields that the parsed value has (each a number, \<open>autoExposure\<close> a boolean).
  \<open>JSON.stringify\<close> of the settings object is the JSON text with all six fields.
  \<open>setItem\<close> and \<open>getItem\<close> may throw (a full or blocked storage). The world of the
  controller is its state, the storage, and whether it holds a video element
  (\<open>this.video\<close>, the argument of the constructor).
\<close>

datatype stored_text = EmptyText | InvalidText | JsonText settings_object

record local_storage =
  items :: "string \<rightharpoonup> stored_text"
  setItem_throws :: bool
  getItem_throws :: bool

record exposure_world =
  controller :: exposure_state
  localStorage :: local_storage
  videoElement :: bool

definition JSON_stringify :: "exposure_settings \<Rightarrow> stored_text" where
  "JSON_stringify s =
     JsonText \<lparr>exposure_of = Some (exposure s), brightness_of = Some (brightness s),
               contrast_of = Some (contrast s), saturation_of = Some (saturation s),
               focus_of = Some (focus s), autoExposure_of = Some (autoExposure s)\<rparr>"

definition JSON_parse :: "stored_text \<Rightarrow> js_error + settings_object" where
  "JSON_parse t =
     (case t of
        JsonText obj \<Rightarrow> Inr obj
      | _ \<Rightarrow> Inl \<lparr>name = ''SyntaxError'', message = ''Unexpected token''\<rparr>)"

definition saveSettings :: "exposure_world \<Rightarrow> exposure_world" where
  "saveSettings w =
     (if setItem_throws (localStorage w) then w
      else w\<lparr>localStorage :=
               (localStorage w)
                 \<lparr>items := (items (localStorage w))
                    (''webcamExposureSettings'' \<mapsto> JSON_stringify (settings (controller w)))\<rparr>\<rparr>)"

text \<open>
  \<open>loadSettings\<close>: everything from \<open>getItem\<close> to the end of \<open>applySettings\<close> is
  inside the \<open>try\<close>. When \<open>applySettings\<close> has stored the merged settings and
  \<open>updateVideoFilters\<close> throws, the error is caught and the method returns false, the
  settings staying as stored.
\<close>

definition loadSettings :: "exposure_world \<Rightarrow> exposure_world \<times> bool" where
  "loadSettings w =
     (if getItem_throws (localStorage w) then (w, False)
      else case items (localStorage w) ''webcamExposureSettings'' of
             None \<Rightarrow> (w, False)
           | Some EmptyText \<Rightarrow> (w, False)
           | Some saved \<Rightarrow>
               (case JSON_parse saved of
                  Inl err \<Rightarrow> (w, False)
                | Inr obj \<Rightarrow>
                    let w1 = w\<lparr>controller := applySettings obj (controller w)\<rparr>
                    in (case updateVideoFilters (videoElement w1) of
                          Inl err \<Rightarrow> (w1, False)
                        | Inr u \<Rightarrow> (w1, True))))"

section \<open>Predicates and sample inputs used by the properties\<close>

text \<open>The default zoom limits hold and the scale lies within them.\<close>

definition zoom_inv :: "zoom_state \<Rightarrow> bool" where
  "zoom_inv z = (minScale z = 1 \<and> maxScale z = 5 \<and> 1 \<le> scale z \<and> scale z \<le> 5)"

text \<open>The scale one wheel step away (\<open>newScale\<close> in both wheel handlers).\<close>

definition steppedScale :: "mouse_event \<Rightarrow> zoom_state \<Rightarrow> real" where
  "steppedScale e z = scale z + scaleStep z * (if deltaY e < 0 then 1 else - 1)"

definition container0 :: container where
  "container0 =
     \<lparr>offsetWidth = 100, offsetHeight = 100, clientWidth = 100, clientHeight = 100,
      rect_left = 0, rect_top = 0, rect_width = 100, rect_height = 100\<rparr>"

definition wheel_up :: mouse_event where
  "wheel_up = \<lparr>clientX = 50, clientY = 50, deltaY = - 100, button = 0\<rparr>"

definition app0 :: app where
  "app0 = \<lparr>zoom = ZoomController_new,
           cross = CrosshairController_new None None None None None None False\<rparr>"

text \<open>The pan bound: the translation stays within the overflow of the zoomed video.\<close>

definition panBound :: "container \<Rightarrow> zoom_state \<Rightarrow> bool" where
  "panBound c z =
     (\<bar>translateX z\<bar> \<le> max 0 ((scale z - 1) * offsetWidth c / 2) \<and>
      \<bar>translateY z\<bar> \<le> max 0 ((scale z - 1) * offsetHeight c / 2))"

text \<open>
  The translation is within the limits that \<open>constrainTranslation\<close> computes,
  \<open>maxTranslateX\<close> and \<open>maxTranslateY\<close>, written as the code writes them.
\<close>

definition withinTranslationLimits :: "container \<Rightarrow> zoom_state \<Rightarrow> bool" where
  "withinTranslationLimits c z =
     (\<bar>translateX z\<bar> \<le> max 0 ((offsetWidth c * scale z - offsetWidth c) / 2) \<and>
      \<bar>translateY z\<bar> \<le> max 0 ((offsetHeight c * scale z - offsetHeight c) / 2))"


definition cross0 :: crosshair_state where
  "cross0 = CrosshairController_new None None None None None None False"

subsection \<open>A page with the crosshair over a 640 by 480 video\<close>

text \<open>
  The crosshair element with its three circles, no width written yet; the video
  container; the controller as constructed for this page; the page once the camera runs
  and the crosshair is shown, with the toggle button of circle 1 at the left edge, and
  the same page without that button.
\<close>

definition page_crosshair :: crosshair_el where
  "page_crosshair =
     \<lparr>circle_1 = Some \<lparr>style_width = None\<rparr>, circle_2 = Some \<lparr>style_width = None\<rparr>,
      circle_3 = Some \<lparr>style_width = None\<rparr>\<rparr>"

definition video_container :: container where
  "video_container =
     \<lparr>offsetWidth = 640, offsetHeight = 480, clientWidth = 640, clientHeight = 480,
      rect_left = 0, rect_top = 0, rect_width = 640, rect_height = 480\<rparr>"

definition tiny_container :: container where
  "tiny_container =
     \<lparr>offsetWidth = 40, offsetHeight = 40, clientWidth = 40, clientHeight = 40,
      rect_left = 0, rect_top = 0, rect_width = 40, rect_height = 40\<rparr>"

definition cross_page :: crosshair_state where
  "cross_page = CrosshairController_new (Some page_crosshair) None None None None None True"

definition toggle1_button :: icon where
  "toggle1_button =
     \<lparr>display_none = False, icon_left = 0, icon_right = 40, icon_top = 220, icon_bottom = 260\<rparr>"

definition shown_page :: app where
  "shown_page =
     \<lparr>zoom = ZoomController_new\<lparr>crosshairController := True\<rparr>,
      cross = (updateCircleSizes video_container cross_page)
                \<lparr>isVisible := True, toggle1Icon := Some toggle1_button\<rparr>\<rparr>"

definition open_page :: app where
  "open_page = shown_page\<lparr>cross := (cross shown_page)\<lparr>toggle1Icon := None\<rparr>\<rparr>"

definition wheel_at :: "real \<Rightarrow> real \<Rightarrow> mouse_event" where
  "wheel_at x y = \<lparr>clientX = x, clientY = y, deltaY = - 100, button = 0\<rparr>"



text \<open>
  The sequence that breaks the margin: the sizes are initialised, circle 2 grows by 33
  wheel steps, circle 1 shrinks by one. \<open>grown k\<close> is the state after the
  initialisation and \<open>k\<close> steps of growth.
\<close>

definition grow2_shrink1 :: "circle_op list" where
  "grow2_shrink1 =
     UpdateCircleSizes video_container # replicate 33 (Circle2SizeChange video_container (- 100))
       @ [Circle1SizeChange video_container 100]"

definition grown :: "nat \<Rightarrow> crosshair_state" where
  "grown k =
     (updateCircleSizes video_container cross_page)
       \<lparr>crosshair := Some \<lparr>circle_1 = Some \<lparr>style_width = Some 370\<rparr>,
                            circle_2 = Some \<lparr>style_width = Some (185 + 5 * real k)\<rparr>,
                            circle_3 = Some \<lparr>style_width = Some 92\<rparr>\<rparr>,
        circle2SizeControl :=
          \<lparr>currentSize = 185 + 5 * real k, minSize = 107, maxSize = 350, step = 5,
           fineStep = 1, borderWidth = 2\<rparr>\<rparr>"

text \<open>
  The pointer is within the radius of a visible circle; the wheel handler called a
  resize handler; the event moved to the centre of the container.
\<close>

definition withinVisibleCircle :: "container \<Rightarrow> mouse_event \<Rightarrow> crosshair_state \<Rightarrow> bool" where
  "withinVisibleCircle c e st =
     (pointerDistance c e st \<le> getCircle3Radius st \<and> circle3Visible st \<or>
      pointerDistance c e st \<le> getCircle2Radius st \<and> circle2Visible st \<or>
      pointerDistance c e st \<le> getCircle1Radius st \<and> circle1Visible st)"

definition isResize :: "wheel_action \<Rightarrow> bool" where
  "isResize act = (act = Circle1Resize \<or> act = Circle2Resize \<or> act = Circle3Resize)"

definition atContainerCenter :: "container \<Rightarrow> mouse_event \<Rightarrow> mouse_event" where
  "atContainerCenter c e =
     e\<lparr>clientX := rect_left c + offsetWidth c / 2, clientY := rect_top c + offsetHeight c / 2\<rparr>"

subsection \<open>Sample browsers and worlds for the webcam manager\<close>

text \<open>
  A browser where the user denies the camera permission while the device list can be
  read; a manager that has not started; a manager that runs a stream of two tracks.
\<close>

definition denied_browser :: media_devices where
  "denied_browser =
     \<lparr>getUserMedia = Some (Inl \<lparr>name = ''NotAllowedError'', message = ''Permission denied''\<rparr>),
      enumerateDevices =
        Inr [\<lparr>deviceId = ''cam1'', label = ''USB Camera'', kind = ''videoinput''\<rparr>]\<rparr>"

definition idle_world :: webcam_world where
  "idle_world = \<lparr>manager = WebcamManager_new (Some \<lparr>srcObject = None\<rparr>), tracks = (\<lambda>t. Live)\<rparr>"

definition running_world :: webcam_world where
  "running_world =
     \<lparr>manager = (WebcamManager_new (Some \<lparr>srcObject = Some [0, 1]\<rparr>))
                   \<lparr>stream := Some [0, 1], isActive := True\<rparr>,
      tracks = (\<lambda>t. Live)\<rparr>"

subsection \<open>Bounds and sample inputs for the exposure controller\<close>

text \<open>The bounds that the constructor's comments give for the five settings.\<close>

definition in_bounds :: "exposure_settings \<Rightarrow> bool" where
  "in_bounds s =
     (- 3 \<le> exposure s \<and> exposure s \<le> 3 \<and> - 100 \<le> brightness s \<and> brightness s \<le> 100 \<and>
      0 \<le> contrast s \<and> contrast s \<le> 200 \<and> 0 \<le> saturation s \<and> saturation s \<le> 200 \<and>
      0 \<le> focus s \<and> focus s \<le> 100)"

definition exposure_only :: "real \<Rightarrow> settings_object" where
  "exposure_only v =
     \<lparr>exposure_of = Some v, brightness_of = None, contrast_of = None, saturation_of = None,
      focus_of = None, autoExposure_of = None\<rparr>"

definition fresh_world :: exposure_world where
  "fresh_world =
     \<lparr>controller = setBrightness 40 (setExposure 2 ExposureController_new),
      localStorage = \<lparr>items = Map.empty, setItem_throws = False, getItem_throws = False\<rparr>,
      videoElement = True\<rparr>"

section \<open>Properties of ZoomController\<close>

lemma constrainTranslation_limits:
  "scale (constrainTranslation c z) = scale z \<and>
   minScale (constrainTranslation c z) = minScale z \<and>
   maxScale (constrainTranslation c z) = maxScale z"
  by (simp add: constrainTranslation_def Let_def)

lemma wheelZoom_inv: "zoom_inv z \<Longrightarrow> zoom_inv (wheelZoom c e z)"
  by (auto simp add: zoom_inv_def wheelZoom_def Let_def constrainTranslation_limits)

lemma handleWheelForCrosshair_inv: "zoom_inv z \<Longrightarrow> zoom_inv (handleWheelForCrosshair c e z)"
  by (auto simp add: zoom_inv_def handleWheelForCrosshair_def Let_def constrainTranslation_limits)

lemma setZoom_scale:
  "scale (setZoom c s cx cy z) = max (minScale z) (min (maxScale z) s) \<and>
   minScale (setZoom c s cx cy z) = minScale z \<and>
   maxScale (setZoom c s cx cy z) = maxScale z"
  by (simp add: setZoom_def Let_def constrainTranslation_limits split: option.split)

lemma setZoom_inv: "zoom_inv z \<Longrightarrow> zoom_inv (setZoom c s cx cy z)"
  by (simp add: zoom_inv_def setZoom_scale)

lemma resetZoom_inv: "zoom_inv z \<Longrightarrow> zoom_inv (resetZoom z)"
  by (simp add: zoom_inv_def resetZoom_def)

text \<open>
  Whatever the crosshair controller does with a wheel event, the zoom state is either
  untouched or the one that \<open>handleWheelForCrosshair\<close> leaves.
\<close>

lemma handleWheelEvent_zoom:
  "zoom (snd (handleWheelEvent c e a)) = zoom a \<or>
   zoom (snd (handleWheelEvent c e a)) = handleWheelForCrosshair c e (zoom a)"
  by (simp add: handleWheelEvent_def Let_def handleZoomEvent_def)

lemma handleWheel_inv: "zoom_inv (zoom a) \<Longrightarrow> zoom_inv (zoom (handleWheel c e a))"
  using handleWheelEvent_zoom [of c e a]
  by (auto simp add: handleWheel_def wheelZoom_inv handleWheelForCrosshair_inv)

lemma zoom_op_step_inv: "zoom_inv (zoom a) \<Longrightarrow> zoom_inv (zoom (zoom_op_step a op))"
  by (cases op)
     (simp_all add: handleWheel_inv handleWheelForCrosshair_inv setZoom_inv resetZoom_inv
        zoomIn_def zoomOut_def)

lemma run_zoom_ops_inv: "zoom_inv (zoom a) \<Longrightarrow> zoom_inv (zoom (run_zoom_ops ops a))"
  unfolding run_zoom_ops_def
  by (induction ops arbitrary: a) (simp_all add: zoom_op_step_inv)

lemma handleWheel_out_of_range:
  assumes "steppedScale e (zoom a) < minScale (zoom a) \<or> steppedScale e (zoom a) > maxScale (zoom a)"
  shows "zoom (handleWheel c e a) = zoom a \<and> (zoomEnabled (zoom a) \<longrightarrow> handleWheel c e a = a)"
proof -
  have w: "wheelZoom c e (zoom a) = zoom a"
    using assms by (auto simp add: wheelZoom_def steppedScale_def Let_def)
  have h: "handleWheelForCrosshair c e (zoom a) = zoom a"
    using assms by (auto simp add: handleWheelForCrosshair_def steppedScale_def Let_def)
  have "zoom (handleWheel c e a) = zoom a"
    using handleWheelEvent_zoom [of c e a] w h by (auto simp add: handleWheel_def)
  moreover have "zoomEnabled (zoom a) \<longrightarrow> handleWheel c e a = a"
    using w by (simp add: handleWheel_def)
  ultimately show ?thesis by simp
qed

text \<open>
  C1. With the default limits (\<open>minScale\<close> 1, \<open>maxScale\<close> 5, as the constructor sets
  them) and a scale within them, any sequence of \<open>handleWheel\<close>,
  \<open>handleWheelForCrosshair\<close>, \<open>setZoom\<close>, \<open>zoomIn\<close>, \<open>zoomOut\<close> and \<open>resetZoom\<close>
  leaves the stored scale within [1, 5]. When the stepped scale would leave the range,
  \<open>handleWheel\<close> leaves the zoom state unchanged (and, with zoom enabled, the whole
  state); \<open>setZoom\<close> stores its argument clamped into the range.
\<close>

theorem zoom_scale_within_default_limits:
  assumes "minScale (zoom a) = 1" and "maxScale (zoom a) = 5"
    and "1 \<le> scale (zoom a)" and "scale (zoom a) \<le> 5"
  shows "(1 \<le> scale (zoom (run_zoom_ops ops a)) \<and> scale (zoom (run_zoom_ops ops a)) \<le> 5) \<and>
         (steppedScale e (zoom a) < 1 \<or> steppedScale e (zoom a) > 5 \<longrightarrow>
            zoom (handleWheel c e a) = zoom a \<and> (zoomEnabled (zoom a) \<longrightarrow> handleWheel c e a = a)) \<and>
         scale (setZoom c s cx cy (zoom a)) = max 1 (min 5 s)"
proof -
  have inv: "zoom_inv (zoom a)"
    using assms by (simp add: zoom_inv_def)
  have "zoom_inv (zoom (run_zoom_ops ops a))"
    using inv by (rule run_zoom_ops_inv)
  then have 1: "1 \<le> scale (zoom (run_zoom_ops ops a)) \<and> scale (zoom (run_zoom_ops ops a)) \<le> 5"
    by (simp add: zoom_inv_def)
  have 2: "steppedScale e (zoom a) < 1 \<or> steppedScale e (zoom a) > 5 \<longrightarrow>
            zoom (handleWheel c e a) = zoom a \<and> (zoomEnabled (zoom a) \<longrightarrow> handleWheel c e a = a)"
    using handleWheel_out_of_range [of e a c] assms(1,2) by simp
  have 3: "scale (setZoom c s cx cy (zoom a)) = max 1 (min 5 s)"
    using assms(1,2) by (simp add: setZoom_scale)
  from 1 2 3 show ?thesis by blast
qed

text \<open>
  The theorem at the constructor's state with zoom enabled: zooming out, setting the
  zoom to 9, a wheel step up and zooming in end at scale 5, and at scale 5 a wheel step
  up changes nothing.
\<close>

theorem zoom_scale_within_default_limits_witness:
  "scale (zoom (run_zoom_ops
      [ZoomOut container0 None None, SetZoom container0 9 None None,
       HandleWheel container0 wheel_up, ZoomIn container0 None None]
      (app0\<lparr>zoom := enableZoom (zoom app0)\<rparr>))) = 5 \<and>
   handleWheel container0 wheel_up (app0\<lparr>zoom := (enableZoom (zoom app0))\<lparr>scale := 5\<rparr>\<rparr>)
     = app0\<lparr>zoom := (enableZoom (zoom app0))\<lparr>scale := 5\<rparr>\<rparr> \<and>
   scale (setZoom container0 9 None None ((enableZoom (zoom app0))\<lparr>scale := 5\<rparr>)) = 5"
proof -
  let ?a = "app0\<lparr>zoom := enableZoom (zoom app0)\<rparr>"
  let ?b = "app0\<lparr>zoom := (enableZoom (zoom app0))\<lparr>scale := 5\<rparr>\<rparr>"
  have b: "minScale (zoom ?b) = 1" "maxScale (zoom ?b) = 5" "1 \<le> scale (zoom ?b)" "scale (zoom ?b) \<le> 5"
    by (simp_all add: app0_def ZoomController_new_def enableZoom_def)
  have s: "steppedScale wheel_up (zoom ?b) > 5" "zoomEnabled (zoom ?b)"
    by (simp_all add: steppedScale_def wheel_up_def app0_def ZoomController_new_def enableZoom_def)
  have r: "scale (zoom (run_zoom_ops
      [ZoomOut container0 None None, SetZoom container0 9 None None,
       HandleWheel container0 wheel_up, ZoomIn container0 None None] ?a)) = 5"
    by (simp add: run_zoom_ops_def zoomIn_def zoomOut_def setZoom_def handleWheel_def wheelZoom_def
        app0_def ZoomController_new_def enableZoom_def wheel_up_def Let_def)
  show ?thesis
    using zoom_scale_within_default_limits
            [OF b, where e = wheel_up and c = container0 and s = 9 and cx = None and cy = None] s r
    by simp
qed











text \<open>
  In exact arithmetic the limits that the code computes are the bound of the claim.
\<close>

lemma withinTranslationLimits_panBound: "withinTranslationLimits c z = panBound c z"
proof -
  have x: "(offsetWidth c * scale z - offsetWidth c) / 2 = (scale z - 1) * offsetWidth c / 2"
    by (simp add: algebra_simps)
  have y: "(offsetHeight c * scale z - offsetHeight c) / 2 = (scale z - 1) * offsetHeight c / 2"
    by (simp add: algebra_simps)
  show ?thesis
    unfolding withinTranslationLimits_def panBound_def x y ..
qed



section \<open>Properties of CrosshairController\<close>

lemma js_rem_bounds:
  assumes "0 < y"
  shows "(0 \<le> x \<longrightarrow> 0 \<le> js_rem x y \<and> js_rem x y < y) \<and>
         (x < 0 \<longrightarrow> - y < js_rem x y \<and> js_rem x y \<le> 0)"
proof (intro conjI impI)
  assume x: "0 \<le> x"
  then have t: "js_trunc (x / y) = \<lfloor>x / y\<rfloor>"
    using assms by (simp add: js_trunc_def)
  have "of_int \<lfloor>x / y\<rfloor> \<le> x / y" by linarith
  then have 1: "of_int \<lfloor>x / y\<rfloor> * y \<le> x"
    using assms by (simp only: pos_le_divide_eq)
  have "x / y < of_int \<lfloor>x / y\<rfloor> + 1" by linarith
  then have 2: "x < (of_int \<lfloor>x / y\<rfloor> + 1) * y"
    using assms by (simp only: pos_divide_less_eq)
  show "0 \<le> js_rem x y" using 1 by (simp add: js_rem_def t algebra_simps)
  show "js_rem x y < y" using 2 by (simp add: js_rem_def t algebra_simps)
next
  assume x: "x < 0"
  then have "x / y < 0" using assms by (simp add: field_simps)
  then have t: "js_trunc (x / y) = \<lceil>x / y\<rceil>"
    by (simp add: js_trunc_def)
  have "x / y \<le> of_int \<lceil>x / y\<rceil>" by linarith
  then have 1: "x \<le> of_int \<lceil>x / y\<rceil> * y"
    using assms by (simp only: pos_divide_le_eq)
  have "of_int \<lceil>x / y\<rceil> - 1 < x / y" by linarith
  then have 2: "(of_int \<lceil>x / y\<rceil> - 1) * y < x"
    using assms by (simp only: pos_less_divide_eq)
  show "- y < js_rem x y" using 2 by (simp add: js_rem_def t algebra_simps)
  show "js_rem x y \<le> 0" using 1 by (simp add: js_rem_def t algebra_simps)
qed

lemma normalize_360:
  "0 \<le> js_rem (js_rem x 360 + 360) 360 \<and> js_rem (js_rem x 360 + 360) 360 < 360 \<and>
   (\<exists>k::int. js_rem (js_rem x 360 + 360) 360 = x + 360 * of_int k)"
proof -
  let ?r = "js_rem x 360"
  have "- 360 < ?r"
    using js_rem_bounds [of 360 x] by (cases "0 \<le> x") auto
  then have p: "0 \<le> ?r + 360" by simp
  have b: "0 \<le> js_rem (?r + 360) 360 \<and> js_rem (?r + 360) 360 < 360"
    using js_rem_bounds [of 360 "?r + 360"] p by simp
  have "js_rem (?r + 360) 360
        = x + 360 * of_int (1 - js_trunc (x / 360) - js_trunc ((?r + 360) / 360))"
    by (simp add: js_rem_def algebra_simps)
  then have "\<exists>k::int. js_rem (?r + 360) 360 = x + 360 * of_int k" ..
  with b show ?thesis by simp
qed

text \<open>
  C10. Rotation is always normalized. With the steps of the constructor (1.25 degrees,
  and 1.0 degree for fine control), after \<open>handleRotation\<close> the stored angle lies in
  [0, 360), whatever the angle was before; for a positive \<open>deltaY\<close> it is the old angle
  plus the step and for a negative \<open>deltaY\<close> the old angle minus the step, modulo 360,
  the step being the fine one when the fine-control button is held.
\<close>

theorem rotation_normalized:
  assumes "rotationStep st = 125 / 100" and "fineRotationStep st = 1"
  shows "0 \<le> rotationAngle (handleRotation dY st) \<and>
         rotationAngle (handleRotation dY st) < 360 \<and>
         (0 < dY \<longrightarrow> (\<exists>k::int. rotationAngle (handleRotation dY st)
              = rotationAngle st + (if isMiddleMouseDown st then 1 else 125 / 100) + 360 * of_int k)) \<and>
         (dY < 0 \<longrightarrow> (\<exists>k::int. rotationAngle (handleRotation dY st)
              = rotationAngle st - (if isMiddleMouseDown st then 1 else 125 / 100) + 360 * of_int k))"
proof -
  let ?d = "(if dY > 0 then 1 else - 1) :: real"
  let ?s = "(if isMiddleMouseDown st then 1 else 125 / 100) :: real"
  have r: "rotationAngle (handleRotation dY st)
           = js_rem (js_rem (rotationAngle st + ?d * ?s) 360 + 360) 360"
    by (simp add: handleRotation_def Let_def assms)
  note n = normalize_360 [of "rotationAngle st + ?d * ?s"]
  have up: "0 < dY \<Longrightarrow> rotationAngle st + ?d * ?s = rotationAngle st + ?s"
    by simp
  have down: "dY < 0 \<Longrightarrow> rotationAngle st + ?d * ?s = rotationAngle st - ?s"
    by simp
  show ?thesis
  proof (intro conjI impI)
    show "0 \<le> rotationAngle (handleRotation dY st)" using n r by simp
    show "rotationAngle (handleRotation dY st) < 360" using n r by simp
    show "\<exists>k::int. rotationAngle (handleRotation dY st) = rotationAngle st + ?s + 360 * of_int k"
      if "0 < dY" using n r up [OF that] by metis
    show "\<exists>k::int. rotationAngle (handleRotation dY st) = rotationAngle st - ?s + 360 * of_int k"
      if "dY < 0" using n r down [OF that] by metis
  qed
qed

text \<open>
  The theorem at the constructor's state: from 45 degrees a step down the wheel gives
  46.25 degrees; from 0.5 degrees a step up the wheel gives 359.25 degrees.
\<close>

theorem rotation_normalized_witness:
  "rotationAngle (handleRotation 100 cross0) = 185 / 4 \<and>
   rotationAngle (handleRotation (- 100) (cross0\<lparr>rotationAngle := 1 / 2\<rparr>)) = 1437 / 4 \<and>
   0 \<le> rotationAngle (handleRotation 100 cross0) \<and>
   rotationAngle (handleRotation 100 cross0) < 360"
proof -
  have s: "rotationStep cross0 = 125 / 100" "fineRotationStep cross0 = 1"
    by (simp_all add: cross0_def CrosshairController_new_def)
  have a: "rotationAngle (handleRotation 100 cross0) = 185 / 4"
    by (simp add: handleRotation_def Let_def cross0_def CrosshairController_new_def js_rem_def
        js_trunc_def)
  have b: "rotationAngle (handleRotation (- 100) (cross0\<lparr>rotationAngle := 1 / 2\<rparr>)) = 1437 / 4"
    by (simp add: handleRotation_def Let_def cross0_def CrosshairController_new_def js_rem_def
        js_trunc_def ceiling_def)
  show ?thesis
    using rotation_normalized [OF s, of 100] a b by simp
qed

subsection \<open>The margin between circle 1 and circle 2\<close>

lemmas circle_defs = run_circle_ops_def updateCircleSizes_def handleCircle1SizeChange_def
  handleCircle2SizeChange_def maxDiameter_def setCircle1_def setCircle2_def setCircle3_def
  Math_round_def Let_def cross_page_def CrosshairController_new_def page_crosshair_def
  video_container_def

lemma grown_0: "updateCircleSizes video_container cross_page = grown 0"
  by (simp add: grown_def circle_defs)

lemma grown_Suc:
  "k < 33 \<Longrightarrow> handleCircle2SizeChange video_container (- 100) (grown k) = grown (Suc k)"
  by (simp add: grown_def circle_defs algebra_simps)

lemma grown_replicate:
  "k \<le> 33 \<Longrightarrow>
   foldl circle_op_step (grown 0) (replicate k (Circle2SizeChange video_container (- 100)))
     = grown k"
proof (induction k)
  case 0
  show ?case by simp
next
  case (Suc k)
  let ?x = "Circle2SizeChange video_container (- 100)"
  have ih: "foldl circle_op_step (grown 0) (replicate k ?x) = grown k" and k: "k < 33"
    using Suc by simp_all
  have r: "replicate (Suc k) ?x = replicate k ?x @ [?x]"
    by (simp add: replicate_append_same)
  show ?case
    unfolding r foldl_append ih using k by (simp add: grown_Suc)
qed

lemma grown_then_shrink:
  "currentSize (circle1SizeControl (handleCircle1SizeChange video_container 100 (grown 33))) = 365 \<and>
   currentSize (circle2SizeControl (handleCircle1SizeChange video_container 100 (grown 33))) = 350"
  by (simp add: grown_def circle_defs)

text \<open>
  With the limits refreshed first, as the handlers of circle 1 and circle 3 do after a
  change, the same wheel step leaves circle 1 at 370.
\<close>

lemma fresh_limits_keep_margin:
  "currentSize (circle1SizeControl
     (handleCircle1SizeChange video_container 100 (updateCircleSizes video_container (grown 33))))
   = 370"
  by (simp add: grown_def circle_defs)

text \<open>In a container 40 pixels high the initial sizes already miss the margin.\<close>

lemma tiny_container_initial_sizes:
  "currentSize (circle1SizeControl (updateCircleSizes tiny_container cross_page)) = 31 \<and>
   currentSize (circle2SizeControl (updateCircleSizes tiny_container cross_page)) = 15"
  by (simp add: updateCircleSizes_def setCircle1_def setCircle2_def setCircle3_def
      Math_round_def Let_def cross_page_def CrosshairController_new_def page_crosshair_def
      tiny_container_def)

text \<open>
  C2. The claim: the diameter of circle 2 never exceeds the diameter of circle 1 minus
  the margin of 20. The code at a 640 by 480 container: after the initialisation
  (circle 1 at 370, circle 2 at 185), 33 wheel steps enlarging circle 2 and one wheel
  step shrinking circle 1, circle 1 is at 365 and circle 2 at 350, which is more than
  365 - 20. \<open>handleCircle2SizeChange\<close> does not refresh the limits, so the minimum of
  circle 1 is still the one computed for the old circle 2.
\<close>

theorem circle2_exceeds_circle1_margin:
  "currentSize (circle1SizeControl (run_circle_ops grow2_shrink1 cross_page)) = 365 \<and>
   currentSize (circle2SizeControl (run_circle_ops grow2_shrink1 cross_page)) = 350 \<and>
   marginFromCircle2 (circle1SizeControl (run_circle_ops grow2_shrink1 cross_page)) = 20 \<and>
   \<not> currentSize (circle2SizeControl (run_circle_ops grow2_shrink1 cross_page))
       \<le> currentSize (circle1SizeControl (run_circle_ops grow2_shrink1 cross_page))
         - marginFromCircle2 (circle1SizeControl (run_circle_ops grow2_shrink1 cross_page))"
proof -
  have r: "run_circle_ops grow2_shrink1 cross_page
           = handleCircle1SizeChange video_container 100 (grown 33)"
    using grown_replicate [of 33]
    by (simp add: run_circle_ops_def grow2_shrink1_def grown_0)
  have m: "marginFromCircle2 (circle1SizeControl
             (handleCircle1SizeChange video_container 100 (grown 33))) = 20"
    by (simp add: grown_def circle_defs)
  show ?thesis
    unfolding r using grown_then_shrink m by simp
qed

subsection \<open>Wheel events between zoom and circle resize\<close>

lemma dist_shown: "pointerDistance video_container (wheel_at 10 240) (cross shown_page) = 310"
proof -
  have "pointerDistance video_container (wheel_at 10 240) (cross shown_page) = sqrt (310\<^sup>2)"
    by (simp add: pointerDistance_def shown_page_def wheel_at_def circle_defs)
  then show ?thesis by simp
qed

lemma radii_shown:
  "getCircle1Radius (cross shown_page) = 185 \<and> getCircle2Radius (cross shown_page) = 185 / 2 \<and>
   getCircle3Radius (cross shown_page) = 46"
  by (simp add: getCircle1Radius_def getCircle2Radius_def getCircle3Radius_def width_or_def
      parseInt_def js_trunc_def shown_page_def circle_defs)

text \<open>
  C4, as stated, fails. On the shown page the pointer at (10, 240) is over the toggle
  button of circle 1 and 310 pixels from the crosshair centre, outside every visible
  circle (circle 1 has radius 185): the wheel resizes circle 1 from 370 to 375. And
  while the crosshair is hidden and zoom is disabled, as before the camera starts, a
  wheel event outside all circles and over no icon changes nothing: it is not
  delegated to \<open>handleWheelForCrosshair\<close>.
\<close>

theorem wheel_over_toggle_icon_resizes_outside_circles:
  "isVisible (cross shown_page) \<and>
   \<not> withinVisibleCircle video_container (wheel_at 10 240) (cross shown_page) \<and>
   fst (handleWheelEvent video_container (wheel_at 10 240) shown_page) = Circle1Resize \<and>
   currentSize (circle1SizeControl (cross shown_page)) = 370 \<and>
   currentSize (circle1SizeControl
     (cross (snd (handleWheelEvent video_container (wheel_at 10 240) shown_page)))) = 375 \<and>
   \<not> zoomEnabled (zoom shown_page) \<and>
   \<not> isMouseOverAnyIcon (wheel_at 10 240) (cross (shown_page\<lparr>cross := (cross shown_page)\<lparr>isVisible := False, toggle1Icon := None\<rparr>\<rparr>)) \<and>
   handleWheel video_container (wheel_at 10 240)
     (shown_page\<lparr>cross := (cross shown_page)\<lparr>isVisible := False, toggle1Icon := None\<rparr>\<rparr>)
     = shown_page\<lparr>cross := (cross shown_page)\<lparr>isVisible := False, toggle1Icon := None\<rparr>\<rparr>"
proof -
  have 1: "isVisible (cross shown_page)" by (simp add: shown_page_def)
  have 2: "\<not> withinVisibleCircle video_container (wheel_at 10 240) (cross shown_page)"
    by (simp add: withinVisibleCircle_def dist_shown radii_shown)
  have o: "isMouseOverToggle1Icon (wheel_at 10 240) (cross shown_page)"
    "\<not> isMouseOverRotationIcon (wheel_at 10 240) (cross shown_page)"
    "circle1Visible (cross shown_page)"
    by (simp_all add: isMouseOverToggle1Icon_def isMouseOverRotationIcon_def isMouseOverIcon_def
        shown_page_def wheel_at_def toggle1_button_def circle_defs)
  have 3: "fst (handleWheelEvent video_container (wheel_at 10 240) shown_page) = Circle1Resize"
    using 1 o by (simp add: handleWheelEvent_def)
  have 4: "currentSize (circle1SizeControl (cross shown_page)) = 370"
    by (simp add: shown_page_def circle_defs)
  have 5: "currentSize (circle1SizeControl
     (cross (snd (handleWheelEvent video_container (wheel_at 10 240) shown_page)))) = 375"
    using 1 o
    by (simp add: handleWheelEvent_def handleCircle1Resize_def)
       (simp add: shown_page_def wheel_at_def circle_defs)
  have 6: "\<not> zoomEnabled (zoom shown_page)"
    by (simp add: shown_page_def ZoomController_new_def)
  have 7: "\<not> isMouseOverAnyIcon (wheel_at 10 240) (cross (shown_page\<lparr>cross := (cross shown_page)\<lparr>isVisible := False, toggle1Icon := None\<rparr>\<rparr>))"
    by (simp add: isMouseOverAnyIcon_def isMouseOverToggle1Icon_def isMouseOverToggle2Icon_def
        isMouseOverToggle3Icon_def isMouseOverResetIcon_def isMouseOverRotationIcon_def
        isMouseOverIcon_def shown_page_def circle_defs)
  have 8: "handleWheel video_container (wheel_at 10 240)
     (shown_page\<lparr>cross := (cross shown_page)\<lparr>isVisible := False, toggle1Icon := None\<rparr>\<rparr>)
     = shown_page\<lparr>cross := (cross shown_page)\<lparr>isVisible := False, toggle1Icon := None\<rparr>\<rparr>"
    using 6 by (simp add: handleWheel_def handleWheelEvent_def)
  from 1 2 3 4 5 6 7 8 show ?thesis by blast
qed

lemma handleWheel_forwards:
  "\<not> zoomEnabled (zoom a) \<Longrightarrow>
   handleWheel c e a = (if crosshairController (zoom a) then snd (handleWheelEvent c e a) else a)"
  by (simp add: handleWheel_def)

lemma handleWheelEvent_hidden:
  "\<not> isVisible (cross a) \<Longrightarrow> handleWheelEvent c e a = (NoAction, a)"
  by (simp add: handleWheelEvent_def)

lemma handleWheelEvent_no_icon:
  assumes "isVisible (cross a)" and "\<not> isMouseOverAnyIcon e (cross a)"
  shows "handleWheelEvent c e a =
         (if pointerDistance c e (cross a) \<le> getCircle3Radius (cross a) \<and> circle3Visible (cross a)
          then (Circle3Resize, a\<lparr>cross := handleCircle3SizeChange c (deltaY e) (cross a)\<rparr>)
          else if pointerDistance c e (cross a) \<le> getCircle2Radius (cross a) \<and> circle2Visible (cross a)
          then (Circle2Resize, a\<lparr>cross := handleCircle2SizeChange c (deltaY e) (cross a)\<rparr>)
          else if pointerDistance c e (cross a) \<le> getCircle1Radius (cross a) \<and> circle1Visible (cross a)
          then (Circle1Resize, a\<lparr>cross := handleCircle1SizeChange c (deltaY e) (cross a)\<rparr>)
          else (ZoomDelegated, handleZoomEvent c e a))"
  using assms by (simp add: handleWheelEvent_def isMouseOverAnyIcon_def Let_def)

lemma handleWheelEvent_resize_iff:
  assumes "isVisible (cross a)" and "\<not> isMouseOverAnyIcon e (cross a)"
  shows "isResize (fst (handleWheelEvent c e a)) \<longleftrightarrow> withinVisibleCircle c e (cross a)"
  unfolding handleWheelEvent_no_icon [OF assms]
  by (auto simp add: isResize_def withinVisibleCircle_def)

lemma handleWheelEvent_outside:
  assumes "isVisible (cross a)" and "\<not> isMouseOverAnyIcon e (cross a)"
    and "\<not> withinVisibleCircle c e (cross a)"
  shows "handleWheelEvent c e a = (ZoomDelegated, handleZoomEvent c e a)"
  unfolding handleWheelEvent_no_icon [OF assms(1,2)]
  using assms(3) by (auto simp add: withinVisibleCircle_def)

lemma handleWheelEvent_over_icon:
  assumes "isVisible (cross a)" and "isMouseOverAnyIcon e (cross a)"
  shows "fst (handleWheelEvent c e a) \<noteq> ZoomDelegated"
  using assms by (auto simp add: handleWheelEvent_def isMouseOverAnyIcon_def Let_def)

lemma handleWheelEvent_icons:
  assumes "isVisible (cross a)"
  shows "(isMouseOverRotationIcon e (cross a) \<longrightarrow>
            handleWheelEvent c e a = (Rotation, a\<lparr>cross := handleRotation (deltaY e) (cross a)\<rparr>)) \<and>
         (\<not> isMouseOverRotationIcon e (cross a) \<and>
          isMouseOverToggle1Icon e (cross a) \<and> circle1Visible (cross a) \<longrightarrow>
            handleWheelEvent c e a
            = (Circle1Resize, a\<lparr>cross := handleCircle1SizeChange c (deltaY e) (cross a)\<rparr>)) \<and>
         (\<not> isMouseOverRotationIcon e (cross a) \<and>
          \<not> (isMouseOverToggle1Icon e (cross a) \<and> circle1Visible (cross a)) \<and>
          isMouseOverToggle2Icon e (cross a) \<and> circle2Visible (cross a) \<longrightarrow>
            handleWheelEvent c e a
            = (Circle2Resize, a\<lparr>cross := handleCircle2SizeChange c (deltaY e) (cross a)\<rparr>)) \<and>
         (\<not> isMouseOverRotationIcon e (cross a) \<and>
          \<not> (isMouseOverToggle1Icon e (cross a) \<and> circle1Visible (cross a)) \<and>
          \<not> (isMouseOverToggle2Icon e (cross a) \<and> circle2Visible (cross a)) \<and>
          isMouseOverToggle3Icon e (cross a) \<and> circle3Visible (cross a) \<longrightarrow>
            handleWheelEvent c e a
            = (Circle3Resize, a\<lparr>cross := handleCircle3SizeChange c (deltaY e) (cross a)\<rparr>))"
  using assms
  by (auto simp add: handleWheelEvent_def Let_def handleCircle1Resize_def
      handleCircle2Resize_def handleCircle3Resize_def)

lemma handleWheelEvent_zoom_only_delegated:
  "fst (handleWheelEvent c e a) \<noteq> ZoomDelegated \<Longrightarrow> zoom (snd (handleWheelEvent c e a)) = zoom a"
  by (auto simp add: handleWheelEvent_def Let_def split: if_splits)

lemma handleWheelEvent_icon_no_action:
  assumes "isVisible (cross a)" and "isMouseOverAnyIcon e (cross a)"
    and "\<not> isMouseOverRotationIcon e (cross a)"
    and "\<not> (isMouseOverToggle1Icon e (cross a) \<and> circle1Visible (cross a))"
    and "\<not> (isMouseOverToggle2Icon e (cross a) \<and> circle2Visible (cross a))"
    and "\<not> (isMouseOverToggle3Icon e (cross a) \<and> circle3Visible (cross a))"
  shows "handleWheelEvent c e a = (NoAction, a)"
  using assms by (auto simp add: handleWheelEvent_def isMouseOverAnyIcon_def Let_def)

lemma handleWheelEvent_cross_only_resized:
  "fst (handleWheelEvent c e a) = ZoomDelegated \<Longrightarrow> cross (snd (handleWheelEvent c e a)) = cross a"
  by (auto simp add: handleWheelEvent_def handleZoomEvent_def Let_def split: if_splits)

lemma handleWheelForCrosshair_about_center:
  "handleWheelForCrosshair c e z = wheelZoom c (atContainerCenter c e) z"
  by (simp add: handleWheelForCrosshair_def wheelZoom_def atContainerCenter_def Let_def)

text \<open>
  C4, amended. With zoom disabled, \<open>handleWheel\<close> changes nothing itself and hands the
  event to \<open>handleWheelEvent\<close> of the crosshair controller, when one is set. That
  handler does nothing while the crosshair is hidden. While it is visible: over the
  rotation icon it rotates; over the toggle icon of a visible circle it runs the resize
  of that circle (toggle 1 before 2 before 3); over the toggle icon of a hidden circle
  or over the reset icon it does nothing; so over any icon it never zooms. With the
  pointer over no icon it runs a resize handler exactly when the pointer distance from
  the (offset) crosshair centre is within the radius of a visible circle: the crosshair
  state becomes the one that the size handler of the innermost such circle (circle 3
  before 2 before 1) leaves, and nothing else changes. Otherwise it hands the event to
  \<open>handleZoomEvent\<close>, that is to \<open>handleWheelForCrosshair\<close>, which zooms as
  \<open>handleWheel\<close> would with the mouse at the centre of the container, and leaves the
  crosshair state. The zoom state changes only through that delegation.
\<close>

theorem wheel_mode_switching:
  "(\<not> zoomEnabled (zoom a) \<longrightarrow>
      handleWheel c e a = (if crosshairController (zoom a) then snd (handleWheelEvent c e a) else a)) \<and>
   (\<not> isVisible (cross a) \<longrightarrow> handleWheelEvent c e a = (NoAction, a)) \<and>
   (isVisible (cross a) \<and> isMouseOverRotationIcon e (cross a) \<longrightarrow>
      handleWheelEvent c e a = (Rotation, a\<lparr>cross := handleRotation (deltaY e) (cross a)\<rparr>)) \<and>
   (isVisible (cross a) \<and> \<not> isMouseOverRotationIcon e (cross a) \<and>
    isMouseOverToggle1Icon e (cross a) \<and> circle1Visible (cross a) \<longrightarrow>
      handleWheelEvent c e a
      = (Circle1Resize, a\<lparr>cross := handleCircle1SizeChange c (deltaY e) (cross a)\<rparr>)) \<and>
   (isVisible (cross a) \<and> \<not> isMouseOverRotationIcon e (cross a) \<and>
    \<not> (isMouseOverToggle1Icon e (cross a) \<and> circle1Visible (cross a)) \<and>
    isMouseOverToggle2Icon e (cross a) \<and> circle2Visible (cross a) \<longrightarrow>
      handleWheelEvent c e a
      = (Circle2Resize, a\<lparr>cross := handleCircle2SizeChange c (deltaY e) (cross a)\<rparr>)) \<and>
   (isVisible (cross a) \<and> \<not> isMouseOverRotationIcon e (cross a) \<and>
    \<not> (isMouseOverToggle1Icon e (cross a) \<and> circle1Visible (cross a)) \<and>
    \<not> (isMouseOverToggle2Icon e (cross a) \<and> circle2Visible (cross a)) \<and>
    isMouseOverToggle3Icon e (cross a) \<and> circle3Visible (cross a) \<longrightarrow>
      handleWheelEvent c e a
      = (Circle3Resize, a\<lparr>cross := handleCircle3SizeChange c (deltaY e) (cross a)\<rparr>)) \<and>
   (isVisible (cross a) \<and> isMouseOverAnyIcon e (cross a) \<longrightarrow>
      fst (handleWheelEvent c e a) \<noteq> ZoomDelegated) \<and>
   (isVisible (cross a) \<and> isMouseOverAnyIcon e (cross a) \<and>
    \<not> isMouseOverRotationIcon e (cross a) \<and>
    \<not> (isMouseOverToggle1Icon e (cross a) \<and> circle1Visible (cross a)) \<and>
    \<not> (isMouseOverToggle2Icon e (cross a) \<and> circle2Visible (cross a)) \<and>
    \<not> (isMouseOverToggle3Icon e (cross a) \<and> circle3Visible (cross a)) \<longrightarrow>
      handleWheelEvent c e a = (NoAction, a)) \<and>
   (isVisible (cross a) \<and> \<not> isMouseOverAnyIcon e (cross a) \<longrightarrow>
      handleWheelEvent c e a =
        (if pointerDistance c e (cross a) \<le> getCircle3Radius (cross a) \<and> circle3Visible (cross a)
         then (Circle3Resize, a\<lparr>cross := handleCircle3SizeChange c (deltaY e) (cross a)\<rparr>)
         else if pointerDistance c e (cross a) \<le> getCircle2Radius (cross a) \<and> circle2Visible (cross a)
         then (Circle2Resize, a\<lparr>cross := handleCircle2SizeChange c (deltaY e) (cross a)\<rparr>)
         else if pointerDistance c e (cross a) \<le> getCircle1Radius (cross a) \<and> circle1Visible (cross a)
         then (Circle1Resize, a\<lparr>cross := handleCircle1SizeChange c (deltaY e) (cross a)\<rparr>)
         else (ZoomDelegated, handleZoomEvent c e a)) \<and>
      (isResize (fst (handleWheelEvent c e a)) \<longleftrightarrow> withinVisibleCircle c e (cross a)) \<and>
      (\<not> withinVisibleCircle c e (cross a) \<longrightarrow>
         handleWheelEvent c e a = (ZoomDelegated, handleZoomEvent c e a))) \<and>
   (fst (handleWheelEvent c e a) \<noteq> ZoomDelegated \<longrightarrow>
      zoom (snd (handleWheelEvent c e a)) = zoom a) \<and>
   (fst (handleWheelEvent c e a) = ZoomDelegated \<longrightarrow>
      cross (snd (handleWheelEvent c e a)) = cross a) \<and>
   handleZoomEvent c e a
     = (if zoomController (cross a) then a\<lparr>zoom := handleWheelForCrosshair c e (zoom a)\<rparr> else a) \<and>
   handleWheelForCrosshair c e (zoom a) = wheelZoom c (atContainerCenter c e) (zoom a)"
proof -
  have 1: "\<not> zoomEnabled (zoom a) \<longrightarrow>
      handleWheel c e a = (if crosshairController (zoom a) then snd (handleWheelEvent c e a) else a)"
    using handleWheel_forwards [of a c e] by blast
  have 2: "\<not> isVisible (cross a) \<longrightarrow> handleWheelEvent c e a = (NoAction, a)"
    using handleWheelEvent_hidden [of a c e] by blast
  note 3 = handleWheelEvent_icons [of a e c]
  have 4: "isVisible (cross a) \<and> isMouseOverAnyIcon e (cross a) \<longrightarrow>
      fst (handleWheelEvent c e a) \<noteq> ZoomDelegated"
    using handleWheelEvent_over_icon [of a e c] by blast
  have n: "isVisible (cross a) \<and> isMouseOverAnyIcon e (cross a) \<and>
    \<not> isMouseOverRotationIcon e (cross a) \<and>
    \<not> (isMouseOverToggle1Icon e (cross a) \<and> circle1Visible (cross a)) \<and>
    \<not> (isMouseOverToggle2Icon e (cross a) \<and> circle2Visible (cross a)) \<and>
    \<not> (isMouseOverToggle3Icon e (cross a) \<and> circle3Visible (cross a)) \<longrightarrow>
      handleWheelEvent c e a = (NoAction, a)"
    using handleWheelEvent_icon_no_action [of a e c] by blast
  have 5: "isVisible (cross a) \<and> \<not> isMouseOverAnyIcon e (cross a) \<longrightarrow>
      handleWheelEvent c e a =
        (if pointerDistance c e (cross a) \<le> getCircle3Radius (cross a) \<and> circle3Visible (cross a)
         then (Circle3Resize, a\<lparr>cross := handleCircle3SizeChange c (deltaY e) (cross a)\<rparr>)
         else if pointerDistance c e (cross a) \<le> getCircle2Radius (cross a) \<and> circle2Visible (cross a)
         then (Circle2Resize, a\<lparr>cross := handleCircle2SizeChange c (deltaY e) (cross a)\<rparr>)
         else if pointerDistance c e (cross a) \<le> getCircle1Radius (cross a) \<and> circle1Visible (cross a)
         then (Circle1Resize, a\<lparr>cross := handleCircle1SizeChange c (deltaY e) (cross a)\<rparr>)
         else (ZoomDelegated, handleZoomEvent c e a)) \<and>
      (isResize (fst (handleWheelEvent c e a)) \<longleftrightarrow> withinVisibleCircle c e (cross a)) \<and>
      (\<not> withinVisibleCircle c e (cross a) \<longrightarrow>
         handleWheelEvent c e a = (ZoomDelegated, handleZoomEvent c e a))"
    using handleWheelEvent_no_icon [of a e c] handleWheelEvent_resize_iff [of a e c]
      handleWheelEvent_outside [of a e c]
    by blast
  have 6: "fst (handleWheelEvent c e a) \<noteq> ZoomDelegated \<longrightarrow>
      zoom (snd (handleWheelEvent c e a)) = zoom a"
    using handleWheelEvent_zoom_only_delegated [of c e a] by blast
  have 7: "fst (handleWheelEvent c e a) = ZoomDelegated \<longrightarrow>
      cross (snd (handleWheelEvent c e a)) = cross a"
    using handleWheelEvent_cross_only_resized [of c e a] by blast
  have 8: "handleZoomEvent c e a
     = (if zoomController (cross a) then a\<lparr>zoom := handleWheelForCrosshair c e (zoom a)\<rparr> else a)"
    by (simp add: handleZoomEvent_def)
  note 9 = handleWheelForCrosshair_about_center [of c e "zoom a"]
  have i: "(isVisible (cross a) \<and> isMouseOverRotationIcon e (cross a) \<longrightarrow>
      handleWheelEvent c e a = (Rotation, a\<lparr>cross := handleRotation (deltaY e) (cross a)\<rparr>)) \<and>
   (isVisible (cross a) \<and> \<not> isMouseOverRotationIcon e (cross a) \<and>
    isMouseOverToggle1Icon e (cross a) \<and> circle1Visible (cross a) \<longrightarrow>
      handleWheelEvent c e a
      = (Circle1Resize, a\<lparr>cross := handleCircle1SizeChange c (deltaY e) (cross a)\<rparr>)) \<and>
   (isVisible (cross a) \<and> \<not> isMouseOverRotationIcon e (cross a) \<and>
    \<not> (isMouseOverToggle1Icon e (cross a) \<and> circle1Visible (cross a)) \<and>
    isMouseOverToggle2Icon e (cross a) \<and> circle2Visible (cross a) \<longrightarrow>
      handleWheelEvent c e a
      = (Circle2Resize, a\<lparr>cross := handleCircle2SizeChange c (deltaY e) (cross a)\<rparr>)) \<and>
   (isVisible (cross a) \<and> \<not> isMouseOverRotationIcon e (cross a) \<and>
    \<not> (isMouseOverToggle1Icon e (cross a) \<and> circle1Visible (cross a)) \<and>
    \<not> (isMouseOverToggle2Icon e (cross a) \<and> circle2Visible (cross a)) \<and>
    isMouseOverToggle3Icon e (cross a) \<and> circle3Visible (cross a) \<longrightarrow>
      handleWheelEvent c e a
      = (Circle3Resize, a\<lparr>cross := handleCircle3SizeChange c (deltaY e) (cross a)\<rparr>))"
    using 3 by blast
  from 1 2 i 4 n 5 6 7 8 9 show ?thesis by blast
qed

lemma open_page_facts:
  "isVisible (cross open_page)" "\<not> isMouseOverAnyIcon e (cross open_page)"
  "\<not> zoomEnabled (zoom open_page)" "crosshairController (zoom open_page)"
  "zoomController (cross open_page)" "circle1Visible (cross open_page)"
  "\<not> circle2Visible (cross open_page)" "\<not> circle3Visible (cross open_page)"
  "getCircle1Radius (cross open_page) = 185"
  by (simp_all add: open_page_def shown_page_def isMouseOverAnyIcon_def isMouseOverToggle1Icon_def
      isMouseOverToggle2Icon_def isMouseOverToggle3Icon_def isMouseOverResetIcon_def
      isMouseOverRotationIcon_def isMouseOverIcon_def ZoomController_new_def
      getCircle1Radius_def width_or_def parseInt_def js_trunc_def circle_defs)

lemma open_page_distance:
  "pointerDistance video_container (wheel_at 420 240) (cross open_page) = 100"
  "pointerDistance video_container (wheel_at 10 240) (cross open_page) = 310"
proof -
  have "pointerDistance video_container (wheel_at 420 240) (cross open_page) = sqrt (100\<^sup>2)"
    by (simp add: pointerDistance_def open_page_def shown_page_def wheel_at_def circle_defs)
  then show "pointerDistance video_container (wheel_at 420 240) (cross open_page) = 100"
    by simp
  have "pointerDistance video_container (wheel_at 10 240) (cross open_page) = sqrt (310\<^sup>2)"
    by (simp add: pointerDistance_def open_page_def shown_page_def wheel_at_def circle_defs)
  then show "pointerDistance video_container (wheel_at 10 240) (cross open_page) = 310"
    by simp
qed

text \<open>
  The theorem on the page without icons, zoom disabled. A wheel step 100 pixels from
  the centre, inside circle 1 (the only visible circle), is the resize of circle 1: the
  crosshair state is the one \<open>handleCircle1SizeChange\<close> leaves, circle 1 grows from
  370 to 375 and the zoom state stays. A wheel step 310 pixels from the centre is
  delegated: it zooms to 1.1 about the centre (translation 0), where a zoom about the
  mouse would translate by 31, and the crosshair state stays.
\<close>

theorem wheel_mode_switching_witness:
  "handleWheel video_container (wheel_at 420 240) open_page
     = open_page\<lparr>cross := handleCircle1SizeChange video_container (- 100) (cross open_page)\<rparr> \<and>
   currentSize (circle1SizeControl (cross open_page)) = 370 \<and>
   currentSize (circle1SizeControl
     (cross (handleWheel video_container (wheel_at 420 240) open_page))) = 375 \<and>
   isResize (fst (handleWheelEvent video_container (wheel_at 420 240) open_page)) \<and>
   zoom (handleWheel video_container (wheel_at 420 240) open_page) = zoom open_page \<and>
   fst (handleWheelEvent video_container (wheel_at 10 240) open_page) = ZoomDelegated \<and>
   cross (handleWheel video_container (wheel_at 10 240) open_page) = cross open_page \<and>
   scale (zoom (handleWheel video_container (wheel_at 10 240) open_page)) = 11 / 10 \<and>
   translateX (zoom (handleWheel video_container (wheel_at 10 240) open_page)) = 0 \<and>
   translateX (wheelZoom video_container (wheel_at 10 240) (zoom open_page)) = 31"
proof -
  let ?in = "wheel_at 420 240" and ?out = "wheel_at 10 240"
  have win: "withinVisibleCircle video_container ?in (cross open_page)"
    by (simp add: withinVisibleCircle_def open_page_facts open_page_distance)
  have wout: "\<not> withinVisibleCircle video_container ?out (cross open_page)"
    by (simp add: withinVisibleCircle_def open_page_facts open_page_distance)
  note A = wheel_mode_switching [of open_page video_container ?in]
  note B = wheel_mode_switching [of open_page video_container ?out]
  note f = open_page_facts(1) open_page_facts(2) [of ?in] open_page_facts(2) [of ?out]
    open_page_facts(3,4,5)
  have d: "deltaY ?in = - 100"
    by (simp add: wheel_at_def)
  have "handleWheelEvent video_container ?in open_page =
        (if pointerDistance video_container ?in (cross open_page) \<le> getCircle3Radius (cross open_page)
            \<and> circle3Visible (cross open_page)
         then (Circle3Resize,
               open_page\<lparr>cross := handleCircle3SizeChange video_container (deltaY ?in) (cross open_page)\<rparr>)
         else if pointerDistance video_container ?in (cross open_page) \<le> getCircle2Radius (cross open_page)
            \<and> circle2Visible (cross open_page)
         then (Circle2Resize,
               open_page\<lparr>cross := handleCircle2SizeChange video_container (deltaY ?in) (cross open_page)\<rparr>)
         else if pointerDistance video_container ?in (cross open_page) \<le> getCircle1Radius (cross open_page)
            \<and> circle1Visible (cross open_page)
         then (Circle1Resize,
               open_page\<lparr>cross := handleCircle1SizeChange video_container (deltaY ?in) (cross open_page)\<rparr>)
         else (ZoomDelegated, handleZoomEvent video_container ?in open_page))"
    using A f by blast
  then have e: "handleWheelEvent video_container ?in open_page =
        (Circle1Resize,
         open_page\<lparr>cross := handleCircle1SizeChange video_container (- 100) (cross open_page)\<rparr>)"
    by (simp add: open_page_facts open_page_distance d)
  have fw: "handleWheel video_container ?in open_page
        = snd (handleWheelEvent video_container ?in open_page)"
    using A f by presburger
  have 0: "handleWheel video_container ?in open_page
     = open_page\<lparr>cross := handleCircle1SizeChange video_container (- 100) (cross open_page)\<rparr>"
    using fw e by simp
  have s0: "currentSize (circle1SizeControl (cross open_page)) = 370"
    by (simp add: open_page_def shown_page_def circle_defs)
  have s1: "currentSize (circle1SizeControl
     (handleCircle1SizeChange video_container (- 100) (cross open_page))) = 375"
    by (simp add: open_page_def shown_page_def circle_defs)
  have 1: "isResize (fst (handleWheelEvent video_container ?in open_page))"
    using e by (simp add: isResize_def)
  have 2: "zoom (handleWheel video_container ?in open_page) = zoom open_page"
    using 0 by simp
  have 3: "handleWheelEvent video_container ?out open_page
           = (ZoomDelegated, handleZoomEvent video_container ?out open_page)"
    using B wout f by blast
  have "handleWheel video_container ?out open_page
        = snd (handleWheelEvent video_container ?out open_page)"
    using B f by presburger
  moreover have "handleZoomEvent video_container ?out open_page
        = open_page\<lparr>zoom := handleWheelForCrosshair video_container ?out (zoom open_page)\<rparr>"
    using B f by presburger
  ultimately have 4: "handleWheel video_container ?out open_page
           = open_page\<lparr>zoom := handleWheelForCrosshair video_container ?out (zoom open_page)\<rparr>"
    using 3 by simp
  have z: "zoom open_page = ZoomController_new\<lparr>crosshairController := True\<rparr>"
    by (simp add: open_page_def shown_page_def)
  have 5: "scale (handleWheelForCrosshair video_container ?out (zoom open_page)) = 11 / 10"
    "translateX (handleWheelForCrosshair video_container ?out (zoom open_page)) = 0"
    by (simp_all add: z handleWheelForCrosshair_def constrainTranslation_def Let_def
        ZoomController_new_def wheel_at_def video_container_def)
  have 6: "translateX (wheelZoom video_container ?out (zoom open_page)) = 31"
    by (simp add: z wheelZoom_def constrainTranslation_def Let_def
        ZoomController_new_def wheel_at_def video_container_def)
  show ?thesis
    using 0 s0 s1 1 2 3 4 5 6 by simp
qed

section \<open>Properties of WebcamManager\<close>

lemma loadCamerasWithFallback_undefined:
  "''loadCamerasWithFallback'' \<notin> set WebcamManager_methods"
  by (simp add: WebcamManager_methods_def)

lemma loadAvailableCameras_catch:
  assumes "loadAvailableCameras_try nav w = (w1, Inl err)"
  shows "loadAvailableCameras nav w
         = (w1, Inl (TypeError ''this.loadCamerasWithFallback is not a function''))"
  using assms
  by (simp add: loadAvailableCameras_def call_this_def camera_loader_def)

lemma loadCamerasFallback_nonempty:
  "\<exists>cams. snd (loadCamerasFallback nav err w) = Inr cams \<and> cams \<noteq> []"
  by (auto simp add: loadCamerasFallback_def Let_def split: option.split sum.split)

text \<open>
  C3. The claim: when the permission request or the enumeration in
  \<open>loadAvailableCameras\<close> throws, the method recovers through
  \<open>loadCamerasFallback\<close> and returns a non-empty camera list. The code, when the user
  denies the permission: the \<open>catch\<close> block calls \<open>this.loadCamerasWithFallback\<close>,
  a method the class does not have, so the promise rejects with a \<open>TypeError\<close>;
  \<open>loadCamerasFallback\<close>, called with the same error, would have returned the camera
  that the browser lists.
\<close>

theorem loadAvailableCameras_permission_denied:
  "snd (loadAvailableCameras (Some denied_browser) idle_world)
     = Inl (TypeError ''this.loadCamerasWithFallback is not a function'') \<and>
   snd (loadCamerasFallback (Some denied_browser)
          \<lparr>name = ''NotAllowedError'', message = ''Permission denied''\<rparr> idle_world)
     = Inr [\<lparr>deviceId = ''cam1'', label = ''USB Camera'', kind = ''videoinput''\<rparr>]"
  by (simp add: loadAvailableCameras_def loadAvailableCameras_try_def call_this_def
      camera_loader_def loadCamerasFallback_def denied_browser_def Let_def)

text \<open>
  C5. \<open>getErrorMessage\<close> maps an error to its text by the error's name alone: the
  'No camera found' text exactly for \<open>NotFoundError\<close> and \<open>DevicesNotFoundError\<close>,
  the 'access denied' text exactly for \<open>NotAllowedError\<close> and
  \<open>PermissionDeniedError\<close>, the 'not supported' text exactly for
  \<open>NotSupportedError\<close>, the 'already in use' text exactly for \<open>NotReadableError\<close>
  and \<open>TrackStartError\<close>, and 'Unknown camera error occurred.' exactly for every
  other name; two errors of the same name get the same text.
\<close>

theorem getErrorMessage_by_name:
  "(getErrorMessage e = ''No camera found. Please connect a camera and try again.'' \<longleftrightarrow>
      name e = ''NotFoundError'' \<or> name e = ''DevicesNotFoundError'') \<and>
   (getErrorMessage e = ''Camera access denied. Please allow camera permission and refresh the page.'' \<longleftrightarrow>
      name e = ''NotAllowedError'' \<or> name e = ''PermissionDeniedError'') \<and>
   (getErrorMessage e = ''Camera not supported by this browser.'' \<longleftrightarrow>
      name e = ''NotSupportedError'') \<and>
   (getErrorMessage e = ''Camera is already in use by another application.'' \<longleftrightarrow>
      name e = ''NotReadableError'' \<or> name e = ''TrackStartError'') \<and>
   (getErrorMessage e = ''Unknown camera error occurred.'' \<longleftrightarrow>
      name e \<notin> {''NotFoundError'', ''DevicesNotFoundError'', ''NotAllowedError'',
                 ''PermissionDeniedError'', ''NotSupportedError'', ''NotReadableError'',
                 ''TrackStartError''}) \<and>
   (name e = name e' \<longrightarrow> getErrorMessage e = getErrorMessage e')"
  by (simp add: getErrorMessage_def)

text \<open>
  The theorem at a \<open>NotAllowedError\<close> with two different messages and at an
  \<open>AbortError\<close>.
\<close>

theorem getErrorMessage_by_name_witness:
  "getErrorMessage \<lparr>name = ''NotAllowedError'', message = ''Permission denied''\<rparr>
     = ''Camera access denied. Please allow camera permission and refresh the page.'' \<and>
   getErrorMessage \<lparr>name = ''NotAllowedError'', message = ''Permission denied''\<rparr>
     = getErrorMessage \<lparr>name = ''NotAllowedError'', message = ''dismissed''\<rparr> \<and>
   getErrorMessage \<lparr>name = ''AbortError'', message = ''Permission denied''\<rparr>
     = ''Unknown camera error occurred.''"
proof -
  let ?e1 = "\<lparr>name = ''NotAllowedError'', message = ''Permission denied''\<rparr>"
  let ?e2 = "\<lparr>name = ''NotAllowedError'', message = ''dismissed''\<rparr>"
  let ?e3 = "\<lparr>name = ''AbortError'', message = ''Permission denied''\<rparr>"
  have 1: "getErrorMessage ?e1
           = ''Camera access denied. Please allow camera permission and refresh the page.''"
    using getErrorMessage_by_name [of ?e1 ?e2] by simp
  have n: "name ?e1 = name ?e2"
    by simp
  have 2: "getErrorMessage ?e1 = getErrorMessage ?e2"
    using getErrorMessage_by_name [of ?e1 ?e2] n by blast
  have 3: "getErrorMessage ?e3 = ''Unknown camera error occurred.''"
    using getErrorMessage_by_name [of ?e3 ?e3] by simp
  from 1 2 3 show ?thesis by blast
qed

lemma stopTracks_apply: "stopTracks s h t = (if t \<in> set s then Ended else h t)"
  unfolding stopTracks_def
  by (induction s arbitrary: h) (simp_all add: stop_track_def)

text \<open>
  C7. On a page that has the video element, \<open>stopWebcam\<close> returns true, leaves the
  stored stream null, the video's \<open>srcObject\<close> null and \<open>isActive\<close> false; every
  track of the stream it held is ended and no other track is touched; with no stream
  held, no track is touched.
\<close>

theorem stopWebcam_stops_and_clears:
  assumes "video (manager w) = Some v"
  shows "snd (stopWebcam w) = Inr True \<and>
         stream (manager (fst (stopWebcam w))) = None \<and>
         video (manager (fst (stopWebcam w))) = Some (v\<lparr>srcObject := None\<rparr>) \<and>
         \<not> isActive (manager (fst (stopWebcam w))) \<and>
         (\<forall>s. stream (manager w) = Some s \<longrightarrow>
            (\<forall>t. tracks (fst (stopWebcam w)) t = (if t \<in> set s then Ended else tracks w t))) \<and>
         (stream (manager w) = None \<longrightarrow> tracks (fst (stopWebcam w)) = tracks w)"
  using assms
  by (cases "stream (manager w)") (simp_all add: stopWebcam_def Let_def stopTracks_apply)

text \<open>
  The theorem at a manager running a stream of the tracks 0 and 1: both are ended,
  track 2 stays live, and stopping again, with no stream held, returns true as well.
\<close>

theorem stopWebcam_stops_and_clears_witness:
  "snd (stopWebcam running_world) = Inr True \<and>
   stream (manager (fst (stopWebcam running_world))) = None \<and>
   video (manager (fst (stopWebcam running_world))) = Some \<lparr>srcObject = None\<rparr> \<and>
   \<not> isActive (manager (fst (stopWebcam running_world))) \<and>
   tracks (fst (stopWebcam running_world)) 0 = Ended \<and>
   tracks (fst (stopWebcam running_world)) 1 = Ended \<and>
   tracks (fst (stopWebcam running_world)) 2 = Live \<and>
   snd (stopWebcam (fst (stopWebcam running_world))) = Inr True"
proof -
  have v: "video (manager running_world) = Some \<lparr>srcObject = Some [0, 1]\<rparr>"
    by (simp add: running_world_def WebcamManager_new_def)
  have s: "stream (manager running_world) = Some [0, 1]"
    by (simp add: running_world_def WebcamManager_new_def)
  have t: "tracks running_world = (\<lambda>t. Live)"
    by (simp add: running_world_def)
  have v2: "video (manager (fst (stopWebcam running_world))) = Some \<lparr>srcObject = None\<rparr>"
    using stopWebcam_stops_and_clears [OF v] by simp
  show ?thesis
    using stopWebcam_stops_and_clears [OF v] stopWebcam_stops_and_clears [OF v2] s t
    by simp
qed

section \<open>Properties of ExposureController\<close>

lemma stopAutoAdjustmentMonitoring_settings:
  "settings (stopAutoAdjustmentMonitoring st) = settings st"
  by (simp add: stopAutoAdjustmentMonitoring_def)

text \<open>
  The setters, the reset and the automatic adjustment keep settings that are within the
  bounds within them.
\<close>

lemma setters_in_bounds:
  assumes "in_bounds (settings st)"
  shows "in_bounds (settings (setExposure v st))"
    and "in_bounds (settings (setBrightness v st))"
    and "in_bounds (settings (setContrast v st))"
    and "in_bounds (settings (setSaturation v st))"
    and "in_bounds (settings (setFocus v st))"
    and "in_bounds (settings (resetExposure st))"
    and "in_bounds (settings (setAutoExposure en st))"
    and "in_bounds (settings (intelligentExposureAdjustment avg dark bright st))"
  using assms
  by (auto simp add: in_bounds_def setExposure_def setBrightness_def setContrast_def
      setSaturation_def setFocus_def resetExposure_def setAutoExposure_def
      performSoftwareAutoAdjustment_def startAutoAdjustmentMonitoring_def
      intelligentExposureAdjustment_def disableAutoExposureDueToManualChange_def
      stopAutoAdjustmentMonitoring_settings Let_def)

text \<open>
  C6. The claim: every stored setting stays within its bounds after every public
  operation, \<open>applySettings\<close> included. The code at the constructor's settings and
  the object \<open>{exposure: 10}\<close>: \<open>applySettings\<close> stores the exposure 10, outside
  [-3, 3], where \<open>setExposure(10)\<close> stores 3.
\<close>

theorem applySettings_not_clamped:
  "in_bounds (settings ExposureController_new) \<and>
   exposure (settings (applySettings (exposure_only 10) ExposureController_new)) = 10 \<and>
   \<not> in_bounds (settings (applySettings (exposure_only 10) ExposureController_new)) \<and>
   exposure (settings (setExposure 10 ExposureController_new)) = 3"
  by (simp add: in_bounds_def applySettings_def spread_def exposure_only_def
      ExposureController_new_def setExposure_def Let_def)

text \<open>
  Without a video element \<open>loadSettings\<close> stores the saved settings and returns
  false: \<open>updateVideoFilters\<close> throws inside the \<open>try\<close>.
\<close>

lemma loadSettings_without_video:
  assumes "\<not> setItem_throws (localStorage w)"
    and "items (localStorage w') ''webcamExposureSettings''
         = items (localStorage (saveSettings w)) ''webcamExposureSettings''"
    and "\<not> getItem_throws (localStorage w')"
    and "\<not> videoElement w'"
  shows "snd (loadSettings w') = False \<and>
         settings (controller (fst (loadSettings w'))) = settings (controller w)"
  using assms
  by (simp add: loadSettings_def saveSettings_def JSON_stringify_def JSON_parse_def
      applySettings_def spread_def updateVideoFilters_def Let_def)

text \<open>
  C8. For a controller that holds a video element: when \<open>saveSettings\<close> writes the
  settings (the storage accepts the write), a later \<open>loadSettings\<close> that finds under
  \<open>'webcamExposureSettings'\<close> what was written returns true and leaves the settings
  equal to the ones saved, whatever the settings were in between.
\<close>

theorem saveSettings_loadSettings_roundtrip:
  assumes "\<not> setItem_throws (localStorage w)"
    and "items (localStorage w') ''webcamExposureSettings''
         = items (localStorage (saveSettings w)) ''webcamExposureSettings''"
    and "\<not> getItem_throws (localStorage w')"
    and "videoElement w'"
  shows "snd (loadSettings w') = True \<and>
         settings (controller (fst (loadSettings w'))) = settings (controller w)"
  using assms
  by (simp add: loadSettings_def saveSettings_def JSON_stringify_def JSON_parse_def
      applySettings_def spread_def updateVideoFilters_def Let_def)

text \<open>
  The theorem at exposure 2 and brightness 40, saved, then reset, then loaded, for a
  controller with a video element.
\<close>

theorem saveSettings_loadSettings_roundtrip_witness:
  "snd (loadSettings ((saveSettings fresh_world)
          \<lparr>controller := resetExposure (controller (saveSettings fresh_world))\<rparr>)) = True \<and>
   settings (controller (fst (loadSettings ((saveSettings fresh_world)
          \<lparr>controller := resetExposure (controller (saveSettings fresh_world))\<rparr>))))
     = \<lparr>exposure = 2, brightness = 40, contrast = 100, saturation = 100, focus = 50,
        autoExposure = False\<rparr>"
proof -
  let ?w' = "(saveSettings fresh_world)
          \<lparr>controller := resetExposure (controller (saveSettings fresh_world))\<rparr>"
  have 1: "\<not> setItem_throws (localStorage fresh_world)"
    by (simp add: fresh_world_def)
  have 2: "items (localStorage ?w') ''webcamExposureSettings''
         = items (localStorage (saveSettings fresh_world)) ''webcamExposureSettings''"
    by simp
  have 3: "\<not> getItem_throws (localStorage ?w')"
    by (simp add: fresh_world_def saveSettings_def)
  have 4: "videoElement ?w'"
    by (simp add: fresh_world_def saveSettings_def)
  have s: "settings (controller fresh_world)
     = \<lparr>exposure = 2, brightness = 40, contrast = 100, saturation = 100, focus = 50,
        autoExposure = False\<rparr>"
    by (simp add: fresh_world_def setBrightness_def setExposure_def ExposureController_new_def
        parseInt_def js_trunc_def Let_def)
  show ?thesis
    using saveSettings_loadSettings_roundtrip [OF 1 2 3 4] s by simp
qed

end
